theory Spec2Isabelle
  imports Complex_Main "HOL-Library.Sublist"
begin

section \<open>Python strings and errors\<close>

text \<open>
  A Python \<open>str\<close> is modelled as a \<open>string\<close>: a list of characters with code points
  below 256. On these \<open>str.strip\<close> removes the white space characters 9..13, 28..32, 133
  and 160, and \<open>str.lower\<close> maps \<open>A..Z\<close> and the letters 192..222 other than 215 to the
  character 32 places on. \<open>str.upper\<close> maps \<open>a..z\<close> and the letters 224..254 other than
  247 to the character 32 places back and 223 to \<open>SS\<close>; the upper-case forms of 181 and
  255 have code points above 255 and are outside the model.
\<close>

datatype error =
    LiveTradingError string
  | AttributeError
  | TypeError
  | ValueError
  | InvalidOperation
  | DivisionByZero
  | DecimalOverflow
  | OtherException

definition lower_char :: "char \<Rightarrow> char" where
  "lower_char c =
     (let n = (of_char c :: nat) in
      if (65 \<le> n \<and> n \<le> 90) \<or> (192 \<le> n \<and> n \<le> 222 \<and> n \<noteq> 215) then char_of (n + 32) else c)"

definition upper_char :: "char \<Rightarrow> string" where
  "upper_char c =
     (let n = (of_char c :: nat) in
      if (97 \<le> n \<and> n \<le> 122) \<or> (224 \<le> n \<and> n \<le> 254 \<and> n \<noteq> 247) then [char_of (n - 32)]
      else if n = 223 then ''SS''
      else [c])"

definition py_lower :: "string \<Rightarrow> string" where
  "py_lower s = map lower_char s"

definition py_upper :: "string \<Rightarrow> string" where
  "py_upper s = concat (map upper_char s)"

definition is_space :: "char \<Rightarrow> bool" where
  "is_space c =
     (let n = (of_char c :: nat) in
      (9 \<le> n \<and> n \<le> 13) \<or> (28 \<le> n \<and> n \<le> 32) \<or> n = 133 \<or> n = 160)"

definition py_strip :: "string \<Rightarrow> string" where
  "py_strip s = rev (dropWhile is_space (rev (dropWhile is_space s)))"

text \<open>\<open>x or ""\<close> for an optional string: \<open>None\<close> and the empty string both give \<open>""\<close>.\<close>

definition or_empty :: "string option \<Rightarrow> string" where
  "or_empty x = (case x of None \<Rightarrow> [] | Some s \<Rightarrow> s)"

subsection \<open>JSON values and Python conversions\<close>

text \<open>
  Parsed JSON (and the \<open>Any\<close>-typed values of configuration dictionaries). A Python
  \<open>float\<close> is modelled by the rational value of its \<open>repr\<close> and float arithmetic as
  exact; infinities and NaN are outside the model. \<open>JNull\<close> is Python's \<open>None\<close>,
  which is also what \<open>dict.get\<close> returns for a missing key.
\<close>

datatype json =
    JNull
  | JBool bool
  | JInt int
  | JFloat rat
  | JStr string
  | JArr "json list"
  | JObj "(string \<times> json) list"

text \<open>
  What the Python runtime does and the model takes as given: the \<open>repr\<close> of floats,
  lists and dictionaries, the parsing of a string by \<open>float(s)\<close> and by \<open>Decimal(s)\<close>
  (\<open>None\<close> when the string is rejected).
\<close>

record py_runtime =
  repr_of :: "json \<Rightarrow> string"
  float_parse :: "string \<Rightarrow> rat option"
  dec_parse :: "string \<Rightarrow> rat option"

definition truthy :: "json \<Rightarrow> bool" where
  "truthy v = (case v of JNull \<Rightarrow> False | JBool b \<Rightarrow> b | JInt n \<Rightarrow> n \<noteq> 0
     | JFloat r \<Rightarrow> r \<noteq> 0 | JStr s \<Rightarrow> s \<noteq> [] | JArr xs \<Rightarrow> xs \<noteq> [] | JObj kv \<Rightarrow> kv \<noteq> [])"

text \<open>\<open>a or b\<close>.\<close>

definition py_or :: "json \<Rightarrow> json \<Rightarrow> json" where
  "py_or a b = (if truthy a then a else b)"

text \<open>\<open>d.get(k)\<close> on a dictionary given by its items.\<close>

definition jget :: "(string \<times> json) list \<Rightarrow> string \<Rightarrow> json" where
  "jget d k = (case map_of d k of None \<Rightarrow> JNull | Some v \<Rightarrow> v)"

definition is_dict :: "json \<Rightarrow> bool" where
  "is_dict v = (case v of JObj _ \<Rightarrow> True | _ \<Rightarrow> False)"

definition items :: "json \<Rightarrow> (string \<times> json) list" where
  "items v = (case v of JObj kv \<Rightarrow> kv | _ \<Rightarrow> [])"

definition digit_char :: "nat \<Rightarrow> char" where
  "digit_char n = char_of (48 + n)"

fun show_nat :: "nat \<Rightarrow> string" where
  "show_nat n = (if n < 10 then [digit_char n] else show_nat (n div 10) @ [digit_char (n mod 10)])"

declare show_nat.simps [simp del]

definition show_int :: "int \<Rightarrow> string" where
  "show_int i = (if i < 0 then CHR ''-'' # show_nat (nat (- i)) else show_nat (nat i))"

text \<open>\<open>str(v)\<close>.\<close>

definition py_str :: "py_runtime \<Rightarrow> json \<Rightarrow> string" where
  "py_str rt v = (case v of JStr s \<Rightarrow> s | JNull \<Rightarrow> ''None''
     | JBool b \<Rightarrow> (if b then ''True'' else ''False'') | JInt n \<Rightarrow> show_int n
     | _ \<Rightarrow> repr_of rt v)"

text \<open>\<open>float(v)\<close>: \<open>TypeError\<close> for \<open>None\<close>, lists and dictionaries, \<open>ValueError\<close> for a
  string that is no number.\<close>

definition py_float :: "py_runtime \<Rightarrow> json \<Rightarrow> error + rat" where
  "py_float rt v = (case v of JInt n \<Rightarrow> Inr (of_int n) | JFloat r \<Rightarrow> Inr r
     | JBool b \<Rightarrow> Inr (if b then 1 else 0)
     | JStr s \<Rightarrow> (case float_parse rt s of None \<Rightarrow> Inl ValueError | Some r \<Rightarrow> Inr r)
     | _ \<Rightarrow> Inl TypeError)"

text \<open>
  \<open>Decimal(s)\<close> on a plain decimal literal (an optional sign, digits, an optional
  point and digits) is exact and computed here; any other string (exponent notation,
  surrounding white space, underscores) is left to the runtime.
\<close>

definition is_digit :: "char \<Rightarrow> bool" where
  "is_digit c = (let n = (of_char c :: nat) in 48 \<le> n \<and> n \<le> 57)"

definition digits_val :: "string \<Rightarrow> nat" where
  "digits_val ds = foldl (\<lambda>acc c. 10 * acc + (of_char c - 48)) 0 ds"

definition parse_unsigned :: "string \<Rightarrow> rat option" where
  "parse_unsigned s =
     (let ip = takeWhile is_digit s; rest = dropWhile is_digit s in
      case rest of
        [] \<Rightarrow> (if ip = [] then None else Some (of_nat (digits_val ip)))
      | c # fp \<Rightarrow>
          (if c = CHR ''.'' \<and> list_all is_digit fp \<and> (ip \<noteq> [] \<or> fp \<noteq> [])
           then Some (of_nat (digits_val (ip @ fp)) / 10 ^ length fp)
           else None))"

definition parse_plain :: "string \<Rightarrow> rat option" where
  "parse_plain s =
     (case s of
        [] \<Rightarrow> None
      | c # t \<Rightarrow>
          (if c = CHR ''-'' then map_option uminus (parse_unsigned t)
           else if c = CHR ''+'' then parse_unsigned t
           else parse_unsigned s))"

text \<open>\<open>Decimal(str(v))\<close>: exact for an integer, the value of the \<open>repr\<close> for a float,
  \<open>InvalidOperation\<close> for a string that is no number.\<close>

definition py_decimal :: "py_runtime \<Rightarrow> json \<Rightarrow> error + rat" where
  "py_decimal rt v = (case v of JInt n \<Rightarrow> Inr (of_int n) | JFloat r \<Rightarrow> Inr r
     | JStr s \<Rightarrow>
        (case parse_plain s of Some r \<Rightarrow> Inr r
         | None \<Rightarrow> (case dec_parse rt s of None \<Rightarrow> Inl InvalidOperation | Some r \<Rightarrow> Inr r))
     | _ \<Rightarrow> Inl InvalidOperation)"

subsection \<open>\<open>Decimal\<close> arithmetic in the default context\<close>

text \<open>
  A finite \<open>Decimal\<close> is modelled by its rational value. The default context has a
  precision of 28 significant digits, rounding \<open>ROUND_HALF_EVEN\<close>, \<open>Emax = 999999\<close>,
  \<open>Emin = -999999\<close> (so \<open>Etiny = Emin - 27\<close>) and traps \<open>Overflow\<close>,
  \<open>DivisionByZero\<close> and \<open>InvalidOperation\<close>. The result of a division is the exact
  quotient rounded to the context.

  \<open>ndigits n\<close> is the number of decimal digits of a positive integer; \<open>adjusted x\<close> is
  the exponent of the leading digit of \<open>x\<close> (\<open>Decimal.adjusted\<close>).
\<close>

function ndigits :: "int \<Rightarrow> nat" where
  "ndigits n = (if n < 10 then 1 else Suc (ndigits (n div 10)))"
  by auto
termination
  by (relation "measure nat") auto

declare ndigits.simps [simp del]

definition adjusted :: "rat \<Rightarrow> int" where
  "adjusted x =
     (let (a, b) = quotient_of \<bar>x\<bar>;
          d = int (ndigits a) - int (ndigits b)
      in if 10 powi d \<le> \<bar>x\<bar> then d else d - 1)"

definition round_half_even :: "rat \<Rightarrow> int" where
  "round_half_even x =
     (let f = \<lfloor>x\<rfloor>; r = x - of_int f
      in if r < 1 / 2 then f else if 1 / 2 < r then f + 1 else if even f then f else f + 1)"

definition prec :: int where "prec = 28"
definition Emax :: int where "Emax = 999999"
definition Etiny :: int where "Etiny = - 1000026"

definition ctx_round :: "rat \<Rightarrow> error + rat" where
  "ctx_round x =
     (if x = 0 then Inr 0
      else let qe = max (adjusted x - (prec - 1)) Etiny;
               r = of_int (round_half_even (x / 10 powi qe)) * 10 powi qe
           in if r \<noteq> 0 \<and> Emax < adjusted r then Inl DecimalOverflow else Inr r)"

text \<open>\<open>x / y\<close> on \<open>Decimal\<close>s.\<close>

definition dec_div :: "rat \<Rightarrow> rat \<Rightarrow> error + rat" where
  "dec_div x y =
     (if y = 0 then Inl (if x = 0 then InvalidOperation else DivisionByZero)
      else ctx_round (x / y))"

text \<open>\<open>int(x.to_integral_value(rounding=ROUND_DOWN))\<close>: truncation towards zero.\<close>

definition dec_to_int_down :: "rat \<Rightarrow> int" where
  "dec_to_int_down x = (if 0 \<le> x then \<lfloor>x\<rfloor> else \<lceil>x\<rceil>)"

text \<open>
  A value the context holds without rounding: at most 28 significant digits, within the
  exponent range. The value of a Python float's \<open>repr\<close>: at most 17 significant digits,
  with a decimal exponent far inside that range.
\<close>

definition exact_in_context :: "rat \<Rightarrow> bool" where
  "exact_in_context x =
     (\<exists>c k. x = of_int c * 10 powi k \<and> 0 < c \<and> c < 10 ^ 28 \<and> Etiny \<le> k \<and> adjusted x \<le> Emax)"

definition float_value :: "rat \<Rightarrow> bool" where
  "float_value x =
     (\<exists>c k. x = of_int c * 10 powi k \<and> \<bar>c\<bar> < 10 ^ 17 \<and> - 400 \<le> k \<and> k \<le> 400)"

section \<open>The execution dispatcher: \<open>execution.py\<close>\<close>

text \<open>
  \<open>_signal_to_sides\<close> returns \<open>(side, pos_side, reduce_only)\<close> or raises
  \<open>LiveTradingError\<close>. The error message is the f-string
  \<open>Unsupported signal_type: {signal_type}\<close>; the formatting of a \<open>None\<close> argument
  is \<open>None\<close>.
\<close>

definition fmt_opt :: "string option \<Rightarrow> string" where
  "fmt_opt x = (case x of None \<Rightarrow> ''None'' | Some s \<Rightarrow> s)"

definition signal_to_sides :: "string option \<Rightarrow> error + (string \<times> string \<times> bool)" where
  "signal_to_sides signal_type =
     (let sig = py_lower (py_strip (or_empty signal_type)) in
      if sig \<in> set [''open_long'', ''add_long''] then Inr (''buy'', ''long'', False)
      else if sig \<in> set [''open_short'', ''add_short''] then Inr (''sell'', ''short'', False)
      else if sig \<in> set [''close_long'', ''reduce_long''] then Inr (''sell'', ''long'', True)
      else if sig \<in> set [''close_short'', ''reduce_short''] then Inr (''buy'', ''short'', True)
      else Inl (LiveTradingError (''Unsupported signal_type: '' @ fmt_opt signal_type)))"

text \<open>The normalised signal the mapping looks at.\<close>

definition norm_signal :: "string \<Rightarrow> string" where
  "norm_signal s = py_lower (py_strip s)"

definition is_error :: "error + 'a \<Rightarrow> bool" where
  "is_error r = (case r of Inl (LiveTradingError _) \<Rightarrow> True | _ \<Rightarrow> False)"

subsection \<open>\<open>place_order_from_signal\<close>\<close>

text \<open>
  The adapter classes the dispatcher tests with \<open>isinstance\<close>, in the order of the
  source. \<open>BitfinexDerivativesClient\<close> is declared as a subclass of \<open>BitfinexClient\<close>;
  the other classes derive from \<open>BaseRestClient\<close> only.
\<close>

datatype client_class =
    BinanceFuturesClient | OkxClient | BitgetMixClient | BinanceSpotClient
  | BitgetSpotClient | BybitClient | CoinbaseExchangeClient | KrakenClient
  | KucoinSpotClient | KucoinFuturesClient | GateSpotClient | GateUsdtFuturesClient
  | BitfinexClient | BitfinexDerivativesClient | KrakenFuturesClient | OtherClient

definition isinstance :: "client_class \<Rightarrow> client_class \<Rightarrow> bool" where
  "isinstance c k = (c = k \<or> (c = BitfinexDerivativesClient \<and> k = BitfinexClient))"

text \<open>A keyword argument handed to an adapter, and the call the dispatcher makes:
  \<open>place_market_order\<close> of the client with these keyword arguments.\<close>

datatype arg = AStr string | AFloat rat | ABool bool | ANone

definition opt_arg :: "string option \<Rightarrow> arg" where
  "opt_arg x = (case x of None \<Rightarrow> ANone | Some s \<Rightarrow> AStr s)"

datatype adapter_call = PlaceMarketOrder client_class "(string \<times> arg) list"

text \<open>\<open>(market_type or cfg.get("market_type") or "swap").strip().lower()\<close>, with the
  futures aliases folded into \<open>swap\<close>. A truthy configuration value that is no string has
  no \<open>strip\<close>.\<close>

definition resolve_market_type :: "string option \<Rightarrow> (string \<times> json) list \<Rightarrow> error + string" where
  "resolve_market_type market_type cfg =
     (let chosen =
        (if or_empty market_type \<noteq> [] then Inr (or_empty market_type)
         else if truthy (jget cfg ''market_type'') then
           (case jget cfg ''market_type'' of JStr s \<Rightarrow> Inr s | _ \<Rightarrow> Inl AttributeError)
         else Inr ''swap'')
      in case chosen of Inl e \<Rightarrow> Inl e
         | Inr s \<Rightarrow>
            (let mt = py_lower (py_strip s) in
             if mt \<in> set [''futures'', ''future'', ''perp'', ''perpetual''] then Inr ''swap''
             else Inr mt))"

definition cfg_first :: "(string \<times> json) list \<Rightarrow> string list \<Rightarrow> json \<Rightarrow> json" where
  "cfg_first cfg ks dflt = foldr (\<lambda>k acc. py_or (jget cfg k) acc) ks dflt"

definition place_order_from_signal ::
  "py_runtime \<Rightarrow> client_class \<Rightarrow> string option \<Rightarrow> string \<Rightarrow> rat option \<Rightarrow> string option
     \<Rightarrow> (string \<times> json) list option \<Rightarrow> string option \<Rightarrow> error + adapter_call" where
  "place_order_from_signal rt client signal_type symbol amount market_type exchange_config
       client_order_id =
     (let qty = (case amount of None \<Rightarrow> 0 | Some a \<Rightarrow> a) in
      if qty \<le> 0 then Inl (LiveTradingError ''Invalid amount'')
      else case signal_to_sides signal_type of Inl e \<Rightarrow> Inl e
      | Inr (side, pos_side, reduce_only) \<Rightarrow>
       (let cfg = (case exchange_config of None \<Rightarrow> [] | Some d \<Rightarrow> d) in
        case resolve_market_type market_type cfg of Inl e \<Rightarrow> Inl e
        | Inr mt \<Rightarrow>
          if mt = ''spot'' \<and> sublist ''short'' (py_lower (or_empty signal_type))
          then Inl (LiveTradingError ''spot market does not support short signals'')
          else if isinstance client BinanceFuturesClient then
            Inr (PlaceMarketOrder client
              [(''symbol'', AStr symbol),
               (''side'', AStr (if side = ''buy'' then ''BUY'' else ''SELL'')),
               (''quantity'', AFloat qty), (''reduce_only'', ABool reduce_only),
               (''position_side'', AStr pos_side),
               (''client_order_id'', opt_arg client_order_id)])
          else if isinstance client OkxClient then
            Inr (PlaceMarketOrder client
              [(''symbol'', AStr symbol), (''side'', AStr side), (''pos_side'', AStr pos_side),
               (''size'', AFloat qty),
               (''td_mode'', AStr (py_str rt
                  (cfg_first cfg [''margin_mode'', ''td_mode''] (JStr ''cross'')))),
               (''reduce_only'', ABool reduce_only),
               (''client_order_id'', opt_arg client_order_id)])
          else if isinstance client BitgetMixClient then
            Inr (PlaceMarketOrder client
              [(''symbol'', AStr symbol), (''side'', AStr side), (''size'', AFloat qty),
               (''margin_coin'', AStr (py_str rt
                  (cfg_first cfg [''margin_coin'', ''marginCoin''] (JStr ''USDT'')))),
               (''product_type'', AStr (py_str rt
                  (cfg_first cfg [''product_type'', ''productType''] (JStr ''USDT-FUTURES'')))),
               (''margin_mode'', AStr (py_str rt
                  (cfg_first cfg [''margin_mode'', ''marginMode'', ''td_mode''] (JStr ''cross'')))),
               (''reduce_only'', ABool reduce_only),
               (''client_order_id'', opt_arg client_order_id)])
          else if isinstance client BinanceSpotClient then
            Inr (PlaceMarketOrder client
              [(''symbol'', AStr symbol),
               (''side'', AStr (if side = ''buy'' then ''BUY'' else ''SELL'')),
               (''quantity'', AFloat qty), (''client_order_id'', opt_arg client_order_id)])
          else if isinstance client BitgetSpotClient then
            Inr (PlaceMarketOrder client
              [(''symbol'', AStr symbol), (''side'', AStr side), (''size'', AFloat qty),
               (''client_order_id'', opt_arg client_order_id)])
          else if isinstance client BybitClient then
            Inr (PlaceMarketOrder client
              [(''symbol'', AStr symbol), (''side'', AStr side), (''qty'', AFloat qty),
               (''reduce_only'', ABool reduce_only),
               (''client_order_id'', opt_arg client_order_id)])
          else if isinstance client CoinbaseExchangeClient \<or> isinstance client KrakenClient then
            Inr (PlaceMarketOrder client
              [(''symbol'', AStr symbol), (''side'', AStr side), (''size'', AFloat qty),
               (''client_order_id'', opt_arg client_order_id)])
          else if isinstance client KucoinSpotClient then
            Inr (PlaceMarketOrder client
              [(''symbol'', AStr symbol), (''side'', AStr side), (''size'', AFloat qty),
               (''client_order_id'', opt_arg client_order_id), (''quote_size'', ABool False)])
          else if isinstance client KucoinFuturesClient then
            Inr (PlaceMarketOrder client
              [(''symbol'', AStr symbol), (''side'', AStr side), (''size'', AFloat qty),
               (''reduce_only'', ABool reduce_only),
               (''client_order_id'', opt_arg client_order_id)])
          else if isinstance client GateSpotClient then
            Inr (PlaceMarketOrder client
              [(''symbol'', AStr symbol), (''side'', AStr side), (''size'', AFloat qty),
               (''client_order_id'', opt_arg client_order_id)])
          else if isinstance client GateUsdtFuturesClient then
            Inr (PlaceMarketOrder client
              [(''symbol'', AStr symbol), (''side'', AStr side), (''size'', AFloat qty),
               (''reduce_only'', ABool reduce_only),
               (''client_order_id'', opt_arg client_order_id)])
          else if isinstance client BitfinexClient \<or> isinstance client BitfinexDerivativesClient
          then
            Inr (PlaceMarketOrder client
              [(''symbol'', AStr symbol), (''side'', AStr side), (''size'', AFloat qty),
               (''client_order_id'', opt_arg client_order_id)])
          else if isinstance client KrakenFuturesClient then
            Inr (PlaceMarketOrder client
              [(''symbol'', AStr symbol), (''side'', AStr side), (''size'', AFloat qty),
               (''reduce_only'', ABool reduce_only),
               (''client_order_id'', opt_arg client_order_id)])
          else Inl (LiveTradingError ''Unsupported client type'')))"

text \<open>The short-side signals, and the normalised market type of a call.\<close>

definition short_signals :: "string set" where
  "short_signals = {''open_short'', ''add_short'', ''close_short'', ''reduce_short''}"

definition cfg_of :: "(string \<times> json) list option \<Rightarrow> (string \<times> json) list" where
  "cfg_of exchange_config = (case exchange_config of None \<Rightarrow> [] | Some d \<Rightarrow> d)"

text \<open>A runtime for evaluating the model on concrete inputs.\<close>

definition sample_runtime :: py_runtime where
  "sample_runtime =
     \<lparr>repr_of = (\<lambda>v. ''?''),
      float_parse = (\<lambda>s. if s = ''0.5'' then Some (1 / 2) else None),
      dec_parse = (\<lambda>s. if s = ''0.001'' then Some (1 / 1000) else None)\<rparr>"

section \<open>The REST adapters\<close>

subsection \<open>Requests, the clock and the state of a client\<close>

text \<open>
  \<open>BaseRestClient._request\<close> and the symbol conversions of \<open>symbols.py\<close> are outside
  the files at hand; they are parameters of the model. The \<open>k\<close>-th request of a run gets
  \<open>transport k\<close> (an HTTP status code, the parsed body and the body text, or an exception
  of the transport) and takes \<open>latency k\<close> seconds. \<open>time_millis t\<close> is
  \<open>int(t * 1000)\<close> as the runtime computes it from the clock reading \<open>t\<close>.
  Authentication headers are computed from the request and are not part of the model;
  \<open>req_signed\<close> tells a signed request from a public one. A dictionary is given by its
  items, with distinct keys.
\<close>

type_synonym dict = "(string \<times> json) list"

record request =
  req_method :: string
  req_path :: string
  req_params :: "dict option"
  req_body :: "json option"
  req_signed :: bool

type_synonym response = "nat \<times> json \<times> string"

record env =
  transport :: "nat \<Rightarrow> request \<Rightarrow> error + response"
  latency :: "nat \<Rightarrow> rat"
  time_millis :: "rat \<Rightarrow> int"
  to_kucoin_futures_symbol :: "string \<Rightarrow> string"
  to_gate_currency_pair :: "string \<Rightarrow> string"
  to_bitfinex_spot_symbol :: "string \<Rightarrow> string"
  to_bitfinex_perp_symbol :: "string \<Rightarrow> string"

text \<open>
  The state a call works on: the requests sent so far, the reading of \<open>time.time()\<close>,
  the arguments of the calls of \<open>time.sleep\<close> so far, and the contract cache of a
  futures client (symbol, time of the entry, contract).
\<close>

record world =
  net_log :: "request list"
  clock :: rat
  sleeps :: "rat list"
  contract_cache :: "(string \<times> rat \<times> dict) list"

definition http_request :: "env \<Rightarrow> request \<Rightarrow> world \<Rightarrow> (error + response) \<times> world" where
  "http_request env rq w =
     (let k = length (net_log w) in
      (transport env k rq,
       w\<lparr>net_log := net_log w @ [rq], clock := clock w + latency env k\<rparr>))"

text \<open>\<open>if code >= 400: raise LiveTradingError(f"{name} HTTP {code}: {text[:500]}")\<close>,
  else the parsed body.\<close>

definition checked :: "string \<Rightarrow> error + response \<Rightarrow> error + json" where
  "checked name r =
     (case r of Inl e \<Rightarrow> Inl e
      | Inr (code, data, body_text) \<Rightarrow>
          if 400 \<le> code
          then Inl (LiveTradingError
                 (name @ '' HTTP '' @ show_nat code @ '': '' @ take 500 body_text))
          else Inr data)"

text \<open>\<open>_public_request\<close> and \<open>_signed_request\<close> of the KuCoin, Gate and Bitfinex
  clients, which differ in the name of the error message and in the headers only.\<close>

definition public_request ::
  "env \<Rightarrow> string \<Rightarrow> string \<Rightarrow> string \<Rightarrow> dict option \<Rightarrow> world \<Rightarrow> (error + json) \<times> world" where
  "public_request env name method path params w =
     (let (r, w') = http_request env
            \<lparr>req_method = method, req_path = path, req_params = params, req_body = None,
             req_signed = False\<rparr> w
      in (checked name r, w'))"

definition signed_request ::
  "env \<Rightarrow> string \<Rightarrow> string \<Rightarrow> string \<Rightarrow> dict option \<Rightarrow> json option \<Rightarrow> world
     \<Rightarrow> (error + json) \<times> world" where
  "signed_request env name method path params json_body w =
     (let m = py_upper (if method = [] then ''GET'' else method);
          (r, w') = http_request env
            \<lparr>req_method = m, req_path = path, req_params = params, req_body = json_body,
             req_signed = True\<rparr> w
      in (checked name r, w'))"

text \<open>The order submissions among the requests sent: the \<open>POST\<close> requests.\<close>

definition order_posts :: "world \<Rightarrow> request list" where
  "order_posts w = filter (\<lambda>rq. req_method rq = ''POST'') (net_log w)"

text \<open>A cached contract that is non-empty and at most 300 seconds old.\<close>

definition cache_hit :: "world \<Rightarrow> string \<Rightarrow> dict option" where
  "cache_hit w k =
     (case map_of (contract_cache w) k of None \<Rightarrow> None
      | Some (ts, obj) \<Rightarrow> if obj \<noteq> [] \<and> clock w - ts \<le> 300 then Some obj else None)"

definition cache_put :: "string \<Rightarrow> rat \<Rightarrow> dict \<Rightarrow> world \<Rightarrow> world" where
  "cache_put k now obj w =
     (if obj \<noteq> [] then w\<lparr>contract_cache := (k, now, obj) # contract_cache w\<rparr> else w)"

text \<open>What a caller keeps of \<open>get_contract\<close> under
  \<open>try: meta = self.get_contract(...) or {}\<close> / \<open>except Exception: meta = {}\<close>.\<close>

definition meta_of :: "error + dict \<Rightarrow> dict" where
  "meta_of r = (case r of Inl e \<Rightarrow> [] | Inr d \<Rightarrow> d)"

text \<open>\<open>LiveOrderResult\<close>, and \<open>raw if isinstance(raw, dict) else {"raw": raw}\<close>.\<close>

record LiveOrderResult =
  exchange_id :: string
  exchange_order_id :: string
  filled :: rat
  avg_price :: rat
  raw :: json

definition as_dict :: "json \<Rightarrow> json" where
  "as_dict v = (if is_dict v then v else JObj [(''raw'', v)])"

text \<open>\<open>int(time.time() * 1000)\<close>: the product is a floating-point one, so the integer
  is what the runtime makes of the reading of the clock (\<open>time_millis\<close>).\<close>

definition millis :: "env \<Rightarrow> world \<Rightarrow> int" where
  "millis env w = time_millis env (clock w)"
subsection \<open>KuCoin futures: \<open>kucoin.py\<close>\<close>

text \<open>The first dictionary of the active contracts whose \<open>symbol\<close>, in upper case, is
  the symbol asked for; the empty dictionary when there is none.\<close>

definition kucoin_find_contract :: "py_runtime \<Rightarrow> string \<Rightarrow> json list \<Rightarrow> dict" where
  "kucoin_find_contract rt symb data =
     (case List.find
             (\<lambda>it. is_dict it
                \<and> py_upper (py_str rt (py_or (jget (items it) ''symbol'') (JStr [])))
                  = py_upper symb) data of
        None \<Rightarrow> [] | Some it \<Rightarrow> items it)"

definition kucoin_get_contract ::
  "py_runtime \<Rightarrow> env \<Rightarrow> string \<Rightarrow> world \<Rightarrow> (error + dict) \<times> world" where
  "kucoin_get_contract rt env symbol w =
     (let symb = to_kucoin_futures_symbol env symbol in
      if symb = [] then (Inr [], w)
      else case cache_hit w symb of Some obj \<Rightarrow> (Inr obj, w)
      | None \<Rightarrow>
         (let now = clock w;
              (r, w1) = public_request env ''KuCoinFutures'' ''GET''
                          ''/api/v1/contracts/active'' None w
          in case r of Inl e \<Rightarrow> (Inl e, w1)
             | Inr resp \<Rightarrow>
                (let data = py_or (if is_dict resp then jget (items resp) ''data'' else JNull)
                              (JArr []);
                     found = (case data of JArr xs \<Rightarrow> kucoin_find_contract rt symb xs
                              | _ \<Rightarrow> [])
                 in (Inr found, cache_put symb now found w1))))"

text \<open>\<open>Decimal(str(meta.get("multiplier") or meta.get("lotSize") or "0"))\<close>.\<close>

definition kucoin_multiplier :: "py_runtime \<Rightarrow> dict \<Rightarrow> error + rat" where
  "kucoin_multiplier rt meta =
     py_decimal rt (py_or (jget meta ''multiplier'') (py_or (jget meta ''lotSize'') (JStr ''0'')))"

text \<open>
  \<open>_base_to_contracts\<close>. The base size is a float, so \<open>Decimal(str(base_size or 0.0))\<close>
  is its value. An exception of \<open>get_contract\<close> is caught; the conversion of the
  multiplier and the division are outside the \<open>try\<close>. \<open>int\<close> of a finite \<open>Decimal\<close>
  does not raise.
\<close>

definition kucoin_base_to_contracts ::
  "py_runtime \<Rightarrow> env \<Rightarrow> string \<Rightarrow> rat \<Rightarrow> world \<Rightarrow> (error + int) \<times> world" where
  "kucoin_base_to_contracts rt env symbol base_size w =
     (let req = base_size in
      if req \<le> 0 then (Inr 0, w)
      else
       (let symb = to_kucoin_futures_symbol env symbol;
            (r, w1) = kucoin_get_contract rt env symb w;
            meta = meta_of r
        in case kucoin_multiplier rt meta of Inl e \<Rightarrow> (Inl e, w1)
           | Inr m \<Rightarrow>
              (let mult = (if m \<le> 0 then 1 else m) in
               case dec_div req mult of Inl e \<Rightarrow> (Inl e, w1)
               | Inr ct \<Rightarrow> (Inr (dec_to_int_down ct), w1))))"

definition kucoin_order_id :: "py_runtime \<Rightarrow> json \<Rightarrow> string" where
  "kucoin_order_id rt resp =
     (if is_dict resp then
        (case jget (items resp) ''data'' of
           JObj d \<Rightarrow> py_str rt (py_or (jget d ''orderId'') (JStr []))
         | JStr s \<Rightarrow> s
         | _ \<Rightarrow> [])
      else [])"

definition kucoin_client_oid :: "env \<Rightarrow> string option \<Rightarrow> world \<Rightarrow> json" where
  "kucoin_client_oid env client_order_id w =
     JStr (if or_empty client_order_id \<noteq> [] then or_empty client_order_id
           else show_int (millis env w))"

definition kucoin_submit ::
  "py_runtime \<Rightarrow> env \<Rightarrow> dict \<Rightarrow> world \<Rightarrow> (error + LiveOrderResult) \<times> world" where
  "kucoin_submit rt env body w =
     (let (r, w') = signed_request env ''KuCoinFutures'' ''POST'' ''/api/v1/orders'' None
                      (Some (JObj body)) w
      in case r of Inl e \<Rightarrow> (Inl e, w')
         | Inr resp \<Rightarrow>
            (Inr \<lparr>exchange_id = ''kucoin'', exchange_order_id = kucoin_order_id rt resp,
                  filled = 0, avg_price = 0, raw = as_dict resp\<rparr>, w'))"

definition kucoin_place_market_order ::
  "py_runtime \<Rightarrow> env \<Rightarrow> string \<Rightarrow> string \<Rightarrow> rat \<Rightarrow> bool \<Rightarrow> string option \<Rightarrow> world
     \<Rightarrow> (error + LiveOrderResult) \<times> world" where
  "kucoin_place_market_order rt env symbol side sz reduce_only client_order_id w =
     (let sd = py_lower (py_strip side) in
      if sd \<notin> set [''buy'', ''sell''] then (Inl (LiveTradingError (''Invalid side: '' @ side)), w)
      else
       (let symb = to_kucoin_futures_symbol env symbol;
            (r, w1) = kucoin_base_to_contracts rt env symb sz w
        in case r of Inl e \<Rightarrow> (Inl e, w1)
           | Inr qty_ct \<Rightarrow>
              if qty_ct \<le> 0
              then (Inl (LiveTradingError ''Invalid size (converted contracts <= 0)''), w1)
              else kucoin_submit rt env
                     ([(''clientOid'', kucoin_client_oid env client_order_id w1),
                       (''side'', JStr sd), (''symbol'', JStr symb), (''type'', JStr ''market''),
                       (''size'', JInt qty_ct)]
                      @ (if reduce_only then [(''reduceOnly'', JBool True)] else [])) w1))"

definition kucoin_place_limit_order ::
  "py_runtime \<Rightarrow> env \<Rightarrow> string \<Rightarrow> string \<Rightarrow> rat \<Rightarrow> rat \<Rightarrow> bool \<Rightarrow> bool \<Rightarrow> string option
     \<Rightarrow> world \<Rightarrow> (error + LiveOrderResult) \<times> world" where
  "kucoin_place_limit_order rt env symbol side sz price reduce_only post_only
       client_order_id w =
     (let sd = py_lower (py_strip side) in
      if sd \<notin> set [''buy'', ''sell''] then (Inl (LiveTradingError (''Invalid side: '' @ side)), w)
      else
       (let symb = to_kucoin_futures_symbol env symbol; px = price in
        if px \<le> 0 then (Inl (LiveTradingError ''Invalid price''), w)
        else
         (let (r, w1) = kucoin_base_to_contracts rt env symb sz w
          in case r of Inl e \<Rightarrow> (Inl e, w1)
             | Inr qty_ct \<Rightarrow>
                if qty_ct \<le> 0
                then (Inl (LiveTradingError ''Invalid size (converted contracts <= 0)''), w1)
                else kucoin_submit rt env
                       ([(''clientOid'', kucoin_client_oid env client_order_id w1),
                         (''side'', JStr sd), (''symbol'', JStr symb), (''type'', JStr ''limit''),
                         (''price'', JStr (py_str rt (JFloat px))), (''size'', JInt qty_ct)]
                        @ (if reduce_only then [(''reduceOnly'', JBool True)] else [])
                        @ (if post_only then [(''postOnly'', JBool True)] else [])) w1)))"
subsection \<open>Gate USDT futures: \<open>gate.py\<close>\<close>

text \<open>\<open>_to_dec\<close>: \<open>Decimal(str(x))\<close>, and \<open>Decimal("0")\<close> when that raises.\<close>

definition gate_to_dec :: "py_runtime \<Rightarrow> json \<Rightarrow> rat" where
  "gate_to_dec rt x = (case py_decimal rt x of Inl e \<Rightarrow> 0 | Inr d \<Rightarrow> d)"

definition gate_get_contract :: "env \<Rightarrow> string \<Rightarrow> world \<Rightarrow> (error + dict) \<times> world" where
  "gate_get_contract env contract w =
     (let c = py_strip contract in
      if c = [] then (Inr [], w)
      else case cache_hit w c of Some obj \<Rightarrow> (Inr obj, w)
      | None \<Rightarrow>
         (let now = clock w;
              (r, w1) = public_request env ''Gate'' ''GET''
                          (''/api/v4/futures/usdt/contracts/'' @ c) None w
          in case r of Inl e \<Rightarrow> (Inl e, w1)
             | Inr resp \<Rightarrow>
                (let obj = (if is_dict resp then items resp else [])
                 in (Inr obj, cache_put c now obj w1))))"

text \<open>The multiplier \<open>_base_to_contracts\<close> reads from the metadata.\<close>

definition gate_multiplier :: "py_runtime \<Rightarrow> dict \<Rightarrow> rat" where
  "gate_multiplier rt meta =
     gate_to_dec rt
       (py_or (jget meta ''quanto_multiplier'')
         (py_or (jget meta ''quantoMultiplier'')
           (py_or (jget meta ''contract_size'')
             (py_or (jget meta ''contractSize'') (JStr ''0'')))))"

text \<open>\<open>_base_to_contracts\<close>: the division is outside every \<open>try\<close>; \<open>_floor\<close> and
  \<open>int\<close> of a finite \<open>Decimal\<close> do not raise.\<close>

definition gate_base_to_contracts ::
  "py_runtime \<Rightarrow> env \<Rightarrow> string \<Rightarrow> rat \<Rightarrow> world \<Rightarrow> (error + int) \<times> world" where
  "gate_base_to_contracts rt env contract base_size w =
     (let req = base_size in
      if req \<le> 0 then (Inr 0, w)
      else
       (let (r, w1) = gate_get_contract env contract w;
            meta = meta_of r;
            qm0 = gate_multiplier rt meta;
            qm = (if qm0 \<le> 0 then 1 else qm0)
        in case dec_div req qm of Inl e \<Rightarrow> (Inl e, w1)
           | Inr contracts \<Rightarrow> (Inr (dec_to_int_down contracts), w1)))"

definition gate_submit ::
  "py_runtime \<Rightarrow> env \<Rightarrow> dict \<Rightarrow> world \<Rightarrow> (error + LiveOrderResult) \<times> world" where
  "gate_submit rt env body w =
     (let (r, w') = signed_request env ''Gate'' ''POST'' ''/api/v4/futures/usdt/orders'' None
                      (Some (JObj body)) w
      in case r of Inl e \<Rightarrow> (Inl e, w')
         | Inr resp \<Rightarrow>
            (Inr \<lparr>exchange_id = ''gate'',
                  exchange_order_id =
                    (if is_dict resp then py_str rt (py_or (jget (items resp) ''id'') (JStr []))
                     else []),
                  filled = 0, avg_price = 0, raw = as_dict resp\<rparr>, w'))"

definition gate_order_options :: "bool \<Rightarrow> string option \<Rightarrow> dict" where
  "gate_order_options reduce_only client_order_id =
     (if reduce_only then [(''reduce_only'', JBool True)] else [])
     @ (if or_empty client_order_id \<noteq> [] then [(''text'', JStr (or_empty client_order_id))]
        else [])"

definition gate_place_market_order ::
  "py_runtime \<Rightarrow> env \<Rightarrow> string \<Rightarrow> string \<Rightarrow> rat \<Rightarrow> bool \<Rightarrow> string option \<Rightarrow> world
     \<Rightarrow> (error + LiveOrderResult) \<times> world" where
  "gate_place_market_order rt env symbol side sz reduce_only client_order_id w =
     (let sd = py_lower (py_strip side) in
      if sd \<notin> set [''buy'', ''sell''] then (Inl (LiveTradingError (''Invalid side: '' @ side)), w)
      else
       (let contract = to_gate_currency_pair env symbol;
            (r, w1) = gate_base_to_contracts rt env contract sz w
        in case r of Inl e \<Rightarrow> (Inl e, w1)
           | Inr csz \<Rightarrow>
              if csz \<le> 0
              then (Inl (LiveTradingError ''Invalid size (converted contracts <= 0)''), w1)
              else
               (let signed_size = (if sd = ''buy'' then csz else - csz) in
                gate_submit rt env
                  ([(''contract'', JStr contract), (''size'', JInt signed_size),
                    (''price'', JStr ''0''), (''tif'', JStr ''ioc'')]
                   @ gate_order_options reduce_only client_order_id) w1)))"

definition gate_place_limit_order ::
  "py_runtime \<Rightarrow> env \<Rightarrow> string \<Rightarrow> string \<Rightarrow> rat \<Rightarrow> rat \<Rightarrow> bool \<Rightarrow> string option \<Rightarrow> world
     \<Rightarrow> (error + LiveOrderResult) \<times> world" where
  "gate_place_limit_order rt env symbol side sz price reduce_only client_order_id w =
     (let sd = py_lower (py_strip side) in
      if sd \<notin> set [''buy'', ''sell''] then (Inl (LiveTradingError (''Invalid side: '' @ side)), w)
      else
       (let contract = to_gate_currency_pair env symbol;
            (r, w1) = gate_base_to_contracts rt env contract sz w
        in case r of Inl e \<Rightarrow> (Inl e, w1)
           | Inr csz \<Rightarrow>
              if csz \<le> 0
              then (Inl (LiveTradingError ''Invalid size (converted contracts <= 0)''), w1)
              else
               (let px = price in
                if px \<le> 0 then (Inl (LiveTradingError ''Invalid price''), w1)
                else
                 (let signed_size = (if sd = ''buy'' then csz else - csz) in
                  gate_submit rt env
                    ([(''contract'', JStr contract), (''size'', JInt signed_size),
                      (''price'', JStr (py_str rt (JFloat px))), (''tif'', JStr ''gtc'')]
                     @ gate_order_options reduce_only client_order_id) w1))))"

text \<open>Environments and an initial state for evaluating the adapters on concrete inputs:
  the contract metadata endpoint answers with the given body, every request takes the
  given time.\<close>

definition sample_env :: "json \<Rightarrow> rat \<Rightarrow> env" where
  "sample_env body d =
     \<lparr>transport = (\<lambda>k rq. Inr (200, body, [])), latency = (\<lambda>k. d),
      time_millis = (\<lambda>t. \<lfloor>t * 1000\<rfloor>),
      to_kucoin_futures_symbol = (\<lambda>s. s), to_gate_currency_pair = (\<lambda>s. s),
      to_bitfinex_spot_symbol = (\<lambda>s. CHR ''t'' # s),
      to_bitfinex_perp_symbol = (\<lambda>s. CHR ''t'' # s @ ''F0'')\<rparr>"

definition failing_env :: env where
  "failing_env =
     \<lparr>transport = (\<lambda>k rq. Inl OtherException), latency = (\<lambda>k. 0),
      time_millis = (\<lambda>t. \<lfloor>t * 1000\<rfloor>),
      to_kucoin_futures_symbol = (\<lambda>s. s), to_gate_currency_pair = (\<lambda>s. s),
      to_bitfinex_spot_symbol = (\<lambda>s. CHR ''t'' # s),
      to_bitfinex_perp_symbol = (\<lambda>s. CHR ''t'' # s @ ''F0'')\<rparr>"

definition world0 :: world where
  "world0 = \<lparr>net_log = [], clock = 0, sleeps = [], contract_cache = []\<rparr>"

definition kucoin_contracts :: "json \<Rightarrow> json" where
  "kucoin_contracts mult =
     JObj [(''code'', JStr ''200000''),
           (''data'', JArr [JObj [(''symbol'', JStr ''XBTUSDTM''), (''multiplier'', mult)]])]"

definition gate_contract :: "json \<Rightarrow> json" where
  "gate_contract mult = JObj [(''name'', JStr ''BTC_USDT''), (''quanto_multiplier'', mult)]"

subsection \<open>Gate request signing: \<open>_GateBase._sign\<close>\<close>

text \<open>
  Byte strings are lists of characters. \<open>str.encode("utf-8")\<close> writes a character below
  128 as one byte and a character from 128 to 255 as two.
  \<open>hmac.new(key, msg, hashlib.sha512)\<close> is a parameter: \<open>hmac_sha512 key msg\<close> is its
  digest. \<open>hexdigest\<close> writes every byte of the digest as two lower-case hexadecimal
  digits.
\<close>

type_synonym bytes = "char list"

definition utf8_char :: "char \<Rightarrow> bytes" where
  "utf8_char c =
     (let n = (of_char c :: nat) in
      if n < 128 then [c] else [char_of (192 + n div 64), char_of (128 + n mod 64)])"

definition encode_utf8 :: "string \<Rightarrow> bytes" where
  "encode_utf8 s = concat (map utf8_char s)"

definition hex_digit :: "nat \<Rightarrow> char" where
  "hex_digit n = (if n < 10 then char_of (48 + n) else char_of (87 + n))"

definition hexlify :: "bytes \<Rightarrow> string" where
  "hexlify bs = concat (map (\<lambda>c. [hex_digit (of_char c div 16), hex_digit (of_char c mod 16)]) bs)"

definition newline :: string where
  "newline = [char_of (10::nat)]"

text \<open>The f-string \<open>f"{method.upper()}\n{url}\n{query_string}\n{body_str}\n{ts}"\<close> joins
  its fragments in order.\<close>

definition gate_sign ::
  "(bytes \<Rightarrow> bytes \<Rightarrow> bytes) \<Rightarrow> string \<Rightarrow> string \<Rightarrow> string \<Rightarrow> string \<Rightarrow> string \<Rightarrow> string
     \<Rightarrow> string" where
  "gate_sign hmac_sha512 secret_key method url query_string body_str ts =
     (let msg = concat [py_upper method, newline, url, newline, query_string, newline,
                        body_str, newline, ts]
      in hexlify (hmac_sha512 (encode_utf8 secret_key) (encode_utf8 msg)))"

text \<open>A stand-in for the digest that keeps the whole key and the whole message, for
  evaluating \<open>gate_sign\<close> on a concrete input.\<close>

definition sample_digest :: "bytes \<Rightarrow> bytes \<Rightarrow> bytes" where
  "sample_digest k m = k @ ''|'' @ m"

subsection \<open>Bitfinex: \<open>bitfinex.py\<close>\<close>

text \<open>
  \<open>cid\<close>: the first 18 digits of the client order id, as an integer; it is added to the
  order when positive.
\<close>

definition bitfinex_cid :: "string option \<Rightarrow> dict" where
  "bitfinex_cid client_order_id =
     (if or_empty client_order_id \<noteq> [] then
        (let cid = int (digits_val (take 18 (filter is_digit (or_empty client_order_id))))
         in if 0 < cid then [(''cid'', JInt cid)] else [])
      else [])"

text \<open>The order id of the response: \<open>str(raw[3][0][0])\<close> when the response has that
  shape.\<close>

definition bitfinex_order_id :: "py_runtime \<Rightarrow> json \<Rightarrow> string" where
  "bitfinex_order_id rt resp =
     (case resp of
        JArr xs \<Rightarrow>
          (if 4 \<le> length xs then
             (case xs ! 3 of
                JArr (JArr (o1 # os) # rest) \<Rightarrow> py_str rt o1
              | _ \<Rightarrow> [])
           else [])
      | _ \<Rightarrow> [])"

definition bitfinex_submit ::
  "py_runtime \<Rightarrow> env \<Rightarrow> dict \<Rightarrow> world \<Rightarrow> (error + LiveOrderResult) \<times> world" where
  "bitfinex_submit rt env body w =
     (let (r, w') = signed_request env ''Bitfinex'' ''POST'' ''/v2/auth/w/order/submit'' None
                      (Some (JObj body)) w
      in case r of Inl e \<Rightarrow> (Inl e, w')
         | Inr resp \<Rightarrow>
            (Inr \<lparr>exchange_id = ''bitfinex'', exchange_order_id = bitfinex_order_id rt resp,
                  filled = 0, avg_price = 0, raw = JObj [(''raw'', resp)]\<rparr>, w'))"

text \<open>
  The class body of \<open>BitfinexDerivativesClient\<close> holds two \<open>def place_market_order\<close>
  and two \<open>def place_limit_order\<close>. \<open>perp_place_market_order\<close> and
  \<open>perp_place_limit_order\<close> are the first ones (lines 84 and 112),
  \<open>exchange_place_market_order\<close> and \<open>exchange_place_limit_order\<close> the second ones (lines
  144 and 174).
\<close>

type_synonym market_method =
  "py_runtime \<Rightarrow> env \<Rightarrow> string \<Rightarrow> string \<Rightarrow> rat \<Rightarrow> string option \<Rightarrow> world
     \<Rightarrow> (error + LiveOrderResult) \<times> world"

type_synonym limit_method =
  "py_runtime \<Rightarrow> env \<Rightarrow> string \<Rightarrow> string \<Rightarrow> rat \<Rightarrow> rat \<Rightarrow> string option \<Rightarrow> world
     \<Rightarrow> (error + LiveOrderResult) \<times> world"



definition exchange_place_market_order :: market_method where
  "exchange_place_market_order rt env symbol side sz client_order_id w =
     (let sd = py_lower (py_strip side) in
      if sd \<notin> set [''buy'', ''sell''] then (Inl (LiveTradingError (''Invalid side: '' @ side)), w)
      else
       (let qty = sz in
        if qty \<le> 0 then (Inl (LiveTradingError ''Invalid size''), w)
        else
         (let symb = to_bitfinex_spot_symbol env symbol;
              amt = (if sd = ''buy'' then qty else - qty)
          in bitfinex_submit rt env
               ([(''type'', JStr ''EXCHANGE MARKET''), (''symbol'', JStr symb),
                 (''amount'', JStr (py_str rt (JFloat amt)))]
                @ bitfinex_cid client_order_id) w)))"

definition exchange_place_limit_order :: limit_method where
  "exchange_place_limit_order rt env symbol side sz price client_order_id w =
     (let sd = py_lower (py_strip side) in
      if sd \<notin> set [''buy'', ''sell''] then (Inl (LiveTradingError (''Invalid side: '' @ side)), w)
      else
       (let qty = sz; px = price in
        if qty \<le> 0 \<or> px \<le> 0 then (Inl (LiveTradingError ''Invalid size/price''), w)
        else
         (let symb = to_bitfinex_spot_symbol env symbol;
              amt = (if sd = ''buy'' then qty else - qty)
          in bitfinex_submit rt env
               ([(''type'', JStr ''EXCHANGE LIMIT''), (''symbol'', JStr symb),
                 (''amount'', JStr (py_str rt (JFloat amt))),
                 (''price'', JStr (py_str rt (JFloat px)))]
                @ bitfinex_cid client_order_id) w)))"








text \<open>The requests a call has sent, and a field of the JSON body of a request.\<close>

definition new_requests :: "world \<Rightarrow> world \<Rightarrow> request list" where
  "new_requests w w' = drop (length (net_log w)) (net_log w')"

definition body_field :: "request \<Rightarrow> string \<Rightarrow> json" where
  "body_field rq k = (case req_body rq of Some (JObj d) \<Rightarrow> jget d k | _ \<Rightarrow> JNull)"




section \<open>Construction of the clients\<close>

subsection \<open>\<open>base64.b64decode\<close> with its default arguments\<close>

text \<open>
  \<open>base64.b64decode(s)\<close> on a \<open>str\<close> first encodes it to ASCII, which raises
  \<open>ValueError\<close> on a character above 127, and then runs the decoder of \<open>binascii\<close>
  with \<open>strict_mode\<close> off. That decoder reads the characters in order and keeps the
  position in the current group of four (\<open>quad_pos\<close>), the bits left over
  (\<open>leftchar\<close>) and the number of pad characters seen since the last digit
  (\<open>pads\<close>). A character that is neither a digit of the alphabet nor \<open>=\<close> is
  skipped. A \<open>=\<close> counts only when two or three digits of the group have been read,
  and ends the decoding once the group is complete with the pads. At the end of the
  input an unfinished group is an error.
\<close>

definition b64_index :: "char \<Rightarrow> nat option" where
  "b64_index c =
     (let n = (of_char c :: nat) in
      if 65 \<le> n \<and> n \<le> 90 then Some (n - 65)
      else if 97 \<le> n \<and> n \<le> 122 then Some (n - 71)
      else if 48 \<le> n \<and> n \<le> 57 then Some (n + 4)
      else if n = 43 then Some 62
      else if n = 47 then Some 63
      else None)"

definition b64_alphabet :: "char \<Rightarrow> bool" where
  "b64_alphabet c = (b64_index c \<noteq> None)"

text \<open>The result is the decoded bytes, or the text of the exception.\<close>

fun a2b_base64 :: "nat \<Rightarrow> nat \<Rightarrow> nat \<Rightarrow> bytes \<Rightarrow> string \<Rightarrow> string + bytes" where
  "a2b_base64 quad_pos leftchar pads out [] =
     (if quad_pos = 0 then Inr out
      else if quad_pos = 1 then
        Inl (''Invalid base64-encoded string: number of data characters (''
             @ show_nat (length out div 3 * 4 + 1)
             @ '') cannot be 1 more than a multiple of 4'')
      else Inl ''Incorrect padding'')"
| "a2b_base64 quad_pos leftchar pads out (c # cs) =
     (if c = CHR ''='' then
        (if 2 \<le> quad_pos then
           (if 4 \<le> quad_pos + (pads + 1) then Inr out
            else a2b_base64 quad_pos leftchar (pads + 1) out cs)
         else a2b_base64 quad_pos leftchar pads out cs)
      else
        (case b64_index c of
           None \<Rightarrow> a2b_base64 quad_pos leftchar pads out cs
         | Some v \<Rightarrow>
            (if quad_pos = 0 then a2b_base64 1 v 0 out cs
             else if quad_pos = 1 then
               a2b_base64 2 (v mod 16) 0 (out @ [char_of (leftchar * 4 + v div 16)]) cs
             else if quad_pos = 2 then
               a2b_base64 3 (v mod 4) 0 (out @ [char_of (leftchar * 16 + v div 4)]) cs
             else a2b_base64 0 0 0 (out @ [char_of (leftchar * 64 + v)]) cs)))"

definition non_ascii :: "char \<Rightarrow> bool" where
  "non_ascii c = (128 \<le> (of_char c :: nat))"

definition b64decode :: "string \<Rightarrow> string + bytes" where
  "b64decode s =
     (if list_ex non_ascii s then Inl ''string argument should contain only ASCII characters''
      else a2b_base64 0 0 0 [] s)"

subsection \<open>The constructors\<close>

text \<open>
  What a constructor stores in the instance. \<open>BaseRestClient.__init__\<close> is outside the
  files at hand; it is taken to store the base URL and the timeout.
  \<open>c_secret_bytes\<close> is the attribute \<open>_secret_bytes\<close>, which only the clients of
  Kraken spot and Coinbase Exchange have.
\<close>

record client =
  c_class :: client_class
  c_api_key :: string
  c_secret_key :: string
  c_passphrase :: string
  c_base_url :: string
  c_secret_bytes :: "bytes option"

definition kraken_client_init :: "string option \<Rightarrow> string option \<Rightarrow> string \<Rightarrow> error + client" where
  "kraken_client_init api_key secret_key base_url =
     (let ak = py_strip (or_empty api_key); sk = py_strip (or_empty secret_key) in
      if ak = [] \<or> sk = [] then Inl (LiveTradingError ''Missing Kraken api_key/secret_key'')
      else case b64decode sk of
             Inl msg \<Rightarrow>
               Inl (LiveTradingError
                      (''Invalid Kraken secret_key (base64 decode failed): '' @ msg))
           | Inr bs \<Rightarrow>
               Inr \<lparr>c_class = KrakenClient, c_api_key = ak, c_secret_key = sk,
                    c_passphrase = [], c_base_url = base_url, c_secret_bytes = Some bs\<rparr>)"

definition coinbase_client_init ::
  "string option \<Rightarrow> string option \<Rightarrow> string option \<Rightarrow> string \<Rightarrow> error + client" where
  "coinbase_client_init api_key secret_key passphrase base_url =
     (let ak = py_strip (or_empty api_key); sk = py_strip (or_empty secret_key);
          pp = py_strip (or_empty passphrase) in
      if ak = [] \<or> sk = [] \<or> pp = [] then
        Inl (LiveTradingError ''Missing CoinbaseExchange api_key/secret_key/passphrase'')
      else case b64decode sk of
             Inl msg \<Rightarrow>
               Inl (LiveTradingError
                      (''Invalid CoinbaseExchange secret_key (base64 decode failed): '' @ msg))
           | Inr bs \<Rightarrow>
               Inr \<lparr>c_class = CoinbaseExchangeClient, c_api_key = ak, c_secret_key = sk,
                    c_passphrase = pp, c_base_url = base_url, c_secret_bytes = Some bs\<rparr>)"

definition kraken_futures_client_init ::
  "string option \<Rightarrow> string option \<Rightarrow> string \<Rightarrow> error + client" where
  "kraken_futures_client_init api_key secret_key base_url =
     (let ak = py_strip (or_empty api_key); sk = py_strip (or_empty secret_key) in
      if ak = [] \<or> sk = [] then
        Inl (LiveTradingError ''Missing KrakenFutures api_key/secret_key'')
      else Inr \<lparr>c_class = KrakenFuturesClient, c_api_key = ak, c_secret_key = sk,
                c_passphrase = [], c_base_url = base_url, c_secret_bytes = None\<rparr>)"

text \<open>\<open>_GateBase.__init__\<close>, which \<open>GateSpotClient\<close> inherits and
  \<open>GateUsdtFuturesClient.__init__\<close> calls before it sets up its contract cache.\<close>

definition gate_client_init ::
  "client_class \<Rightarrow> string option \<Rightarrow> string option \<Rightarrow> string \<Rightarrow> error + client" where
  "gate_client_init cls api_key secret_key base_url =
     (let ak = py_strip (or_empty api_key); sk = py_strip (or_empty secret_key) in
      if ak = [] \<or> sk = [] then Inl (LiveTradingError ''Missing Gate api_key/secret_key'')
      else Inr \<lparr>c_class = cls, c_api_key = ak, c_secret_key = sk,
                c_passphrase = [], c_base_url = base_url, c_secret_bytes = None\<rparr>)"

text \<open>\<open>BitfinexClient.__init__\<close>, which \<open>BitfinexDerivativesClient\<close> inherits.\<close>

definition bitfinex_client_init ::
  "client_class \<Rightarrow> string option \<Rightarrow> string option \<Rightarrow> string \<Rightarrow> error + client" where
  "bitfinex_client_init cls api_key secret_key base_url =
     (let ak = py_strip (or_empty api_key); sk = py_strip (or_empty secret_key) in
      if ak = [] \<or> sk = [] then Inl (LiveTradingError ''Missing Bitfinex api_key/secret_key'')
      else Inr \<lparr>c_class = cls, c_api_key = ak, c_secret_key = sk,
                c_passphrase = [], c_base_url = base_url, c_secret_bytes = None\<rparr>)"

definition kucoin_spot_client_init ::
  "string option \<Rightarrow> string option \<Rightarrow> string option \<Rightarrow> string \<Rightarrow> error + client" where
  "kucoin_spot_client_init api_key secret_key passphrase base_url =
     (let ak = py_strip (or_empty api_key); sk = py_strip (or_empty secret_key);
          pp = py_strip (or_empty passphrase) in
      if ak = [] \<or> sk = [] \<or> pp = [] then
        Inl (LiveTradingError ''Missing KuCoin api_key/secret_key/passphrase'')
      else Inr \<lparr>c_class = KucoinSpotClient, c_api_key = ak, c_secret_key = sk,
                c_passphrase = pp, c_base_url = base_url, c_secret_bytes = None\<rparr>)"

definition kucoin_futures_client_init ::
  "string option \<Rightarrow> string option \<Rightarrow> string option \<Rightarrow> string \<Rightarrow> error + client" where
  "kucoin_futures_client_init api_key secret_key passphrase base_url =
     (let ak = py_strip (or_empty api_key); sk = py_strip (or_empty secret_key);
          pp = py_strip (or_empty passphrase) in
      if ak = [] \<or> sk = [] \<or> pp = [] then
        Inl (LiveTradingError ''Missing KuCoin Futures api_key/secret_key/passphrase'')
      else Inr \<lparr>c_class = KucoinFuturesClient, c_api_key = ak, c_secret_key = sk,
                c_passphrase = pp, c_base_url = base_url, c_secret_bytes = None\<rparr>)"

subsection \<open>The factory: \<open>factory.py\<close>\<close>

text \<open>\<open>_get\<close>: the first of the keys whose value is not \<open>None\<close> and is not blank,
  as a stripped string; the empty string when there is none.\<close>

fun factory_get :: "py_runtime \<Rightarrow> dict \<Rightarrow> string list \<Rightarrow> string" where
  "factory_get rt cfg [] = []"
| "factory_get rt cfg (k # ks) =
     (let v = jget cfg k in
      if v = JNull then factory_get rt cfg ks
      else (let s = py_strip (py_str rt v) in
            if s \<noteq> [] then s else factory_get rt cfg ks))"

declare factory_get.simps [simp del]

text \<open>\<open>_get(exchange_config, "base_url", "baseUrl") or default\<close>, and the same for the
  other settings that have a default.\<close>

definition get_or :: "py_runtime \<Rightarrow> dict \<Rightarrow> string list \<Rightarrow> string \<Rightarrow> string" where
  "get_or rt cfg ks dflt = (let s = factory_get rt cfg ks in if s \<noteq> [] then s else dflt)"

text \<open>
  The market type: \<open>market_type\<close>, else the configuration's \<open>market_type\<close>, else its
  \<open>defaultType\<close>, else \<open>swap\<close>; stripped, in lower case, the futures aliases folded into
  \<open>swap\<close>. A truthy configuration value that is no string has no \<open>strip\<close>.
\<close>

definition factory_market_type :: "string option \<Rightarrow> dict \<Rightarrow> error + string" where
  "factory_market_type market_type cfg =
     (let chosen =
        (if or_empty market_type \<noteq> [] then JStr (or_empty market_type)
         else py_or (jget cfg ''market_type'')
                (py_or (jget cfg ''defaultType'') (JStr ''swap'')))
      in case chosen of
           JStr s \<Rightarrow>
             (let mt = py_lower (py_strip s) in
              Inr (if mt \<in> set [''futures'', ''future'', ''perp'', ''perpetual''] then ''swap''
                   else mt))
         | _ \<Rightarrow> Inl AttributeError)"

text \<open>
  The classes of Binance, OKX, Bitget and Bybit are outside the files at hand:
  \<open>construct cls kwargs\<close> is what the constructor of \<open>cls\<close> does with the keyword
  arguments \<open>kwargs\<close>. \<open>to_int\<close> is the built-in \<open>int\<close>.
\<close>

record externals =
  construct :: "client_class \<Rightarrow> dict \<Rightarrow> error + client"
  to_int :: "json \<Rightarrow> error + int"

definition create_client ::
  "py_runtime \<Rightarrow> externals \<Rightarrow> json \<Rightarrow> string option \<Rightarrow> error + client" where
  "create_client rt ext exchange_config market_type =
     (if \<not> is_dict exchange_config then Inl (LiveTradingError ''Invalid exchange_config'')
      else
       (let cfg = items exchange_config;
            eid = py_lower (factory_get rt cfg [''exchange_id'', ''exchangeId'']);
            ak = factory_get rt cfg [''api_key'', ''apiKey''];
            sk = factory_get rt cfg [''secret_key'', ''secret''];
            pp = factory_get rt cfg [''passphrase'', ''password''];
            url = get_or rt cfg [''base_url'', ''baseUrl''];
            fut_url = get_or rt cfg [''futures_base_url'', ''futuresBaseUrl''];
            creds = [(''api_key'', JStr ak), (''secret_key'', JStr sk)];
            creds3 = creds @ [(''passphrase'', JStr pp)]
        in case factory_market_type market_type cfg of
             Inl e \<Rightarrow> Inl e
           | Inr mt \<Rightarrow>
             if eid = ''binance'' then
               (if mt = ''spot'' then
                  construct ext BinanceSpotClient
                    (creds @ [(''base_url'', JStr (url ''https://api.binance.com''))])
                else
                  construct ext BinanceFuturesClient
                    (creds @ [(''base_url'', JStr (url ''https://fapi.binance.com''))]))
             else if eid = ''okx'' then
               construct ext OkxClient
                 (creds3 @ [(''base_url'', JStr (url ''https://www.okx.com''))])
             else if eid = ''bitget'' then
               (if mt = ''spot'' then
                  construct ext BitgetSpotClient
                    (creds3 @ [(''base_url'', JStr (url ''https://api.bitget.com'')),
                               (''channel_api_code'',
                                JStr (get_or rt cfg [''channel_api_code'', ''channelApiCode'']
                                        ''bntva''))])
                else
                  construct ext BitgetMixClient
                    (creds3 @ [(''base_url'', JStr (url ''https://api.bitget.com''))]))
             else if eid = ''bybit'' then
               (case to_int ext
                       (py_or (jget cfg ''recv_window_ms'')
                          (py_or (jget cfg ''recvWindow'') (JInt 5000))) of
                  Inl e \<Rightarrow> Inl e
                | Inr recv_window_ms \<Rightarrow>
                    construct ext BybitClient
                      (creds @ [(''base_url'', JStr (url ''https://api.bybit.com'')),
                                (''category'', JStr (if mt = ''spot'' then ''spot'' else ''linear'')),
                                (''recv_window_ms'', JInt recv_window_ms)]))
             else if eid \<in> set [''coinbaseexchange'', ''coinbase_exchange''] then
               (if mt \<noteq> ''spot'' then
                  Inl (LiveTradingError
                         ''CoinbaseExchange only supports spot market_type in this project'')
                else coinbase_client_init (Some ak) (Some sk) (Some pp)
                       (url ''https://api.exchange.coinbase.com''))
             else if eid = ''kraken'' then
               (if mt = ''spot'' then
                  kraken_client_init (Some ak) (Some sk) (url ''https://api.kraken.com'')
                else kraken_futures_client_init (Some ak) (Some sk)
                       (fut_url ''https://futures.kraken.com''))
             else if eid = ''kucoin'' then
               (if mt = ''spot'' then
                  kucoin_spot_client_init (Some ak) (Some sk) (Some pp)
                    (url ''https://api.kucoin.com'')
                else kucoin_futures_client_init (Some ak) (Some sk) (Some pp)
                       (fut_url ''https://api-futures.kucoin.com''))
             else if eid = ''gate'' then
               (if mt = ''spot'' then
                  gate_client_init GateSpotClient (Some ak) (Some sk)
                    (url ''https://api.gateio.ws'')
                else gate_client_init GateUsdtFuturesClient (Some ak) (Some sk)
                       (url ''https://api.gateio.ws''))
             else if eid = ''bitfinex'' then
               (if mt = ''spot'' then
                  bitfinex_client_init BitfinexClient (Some ak) (Some sk)
                    (url ''https://api.bitfinex.com'')
                else bitfinex_client_init BitfinexDerivativesClient (Some ak) (Some sk)
                       (url ''https://api.bitfinex.com''))
             else Inl (LiveTradingError (''Unsupported exchange_id: '' @ eid))))"

text \<open>The exchange identifier the factory dispatches on, and stand-ins for the classes
  and functions outside the files at hand.\<close>

definition config_exchange_id :: "py_runtime \<Rightarrow> json \<Rightarrow> string" where
  "config_exchange_id rt exchange_config =
     py_lower (factory_get rt (items exchange_config) [''exchange_id'', ''exchangeId''])"

definition sample_externals :: externals where
  "sample_externals =
     \<lparr>construct = (\<lambda>cls kwargs. Inl OtherException),
      to_int = (\<lambda>v. case v of JInt n \<Rightarrow> Inr n | _ \<Rightarrow> Inl ValueError)\<rparr>"

text \<open>The exchange identifiers \<open>create_client\<close> has a branch for.\<close>

definition supported_exchange_ids :: "string list" where
  "supported_exchange_ids =
     [''binance'', ''okx'', ''bitget'', ''bybit'', ''coinbaseexchange'', ''coinbase_exchange'',
      ''kraken'', ''kucoin'', ''gate'', ''bitfinex'']"

section \<open>Waiting for a fill\<close>

subsection \<open>The polling loop\<close>

text \<open>
  \<open>wait_for_fill\<close> returns the dictionary
  \<open>{"filled": .., "avg_price": .., "status": .., "order": last}\<close>.
\<close>

record fill_report =
  fr_filled :: rat
  fr_avg_price :: rat
  fr_status :: string
  fr_order :: dict

text \<open>
  The loops of the four \<open>wait_for_fill\<close> below have one shape and differ in what an
  iteration reads from the exchange and in the tuple of terminal statuses:

  \<^item> \<open>step prev w\<close> is the iteration up to its first \<open>return\<close> test: the call of
    \<open>get_order\<close> under \<open>try\<close>, with \<open>prev\<close> the value of \<open>last\<close> kept from the
    iteration before, and the values derived from the order; it gives the report of
    the iteration, or the exception that leaves the loop;
  \<^item> the loop returns when the order has a filled quantity and an average price, when
    the status in lower case is terminal, or when \<open>time.time() >= end_ts\<close>;
  \<^item> otherwise it calls \<open>time.sleep\<close>, which raises \<open>ValueError\<close> on a negative
    argument and is taken to last exactly its argument, and starts over.

  The loop need not end, so it is a partial function: \<open>None\<close> is a run that never
  returns.
\<close>

partial_function (option) poll_loop ::
  "(dict \<Rightarrow> world \<Rightarrow> (error + fill_report) \<times> world) \<Rightarrow> string list \<Rightarrow> rat \<Rightarrow> rat \<Rightarrow> dict
     \<Rightarrow> world \<Rightarrow> ((error + fill_report) \<times> world) option" where
  "poll_loop step terminal end_ts pause prev w =
     (case step prev w of
        (Inl e, w1) \<Rightarrow> Some (Inl e, w1)
      | (Inr r, w1) \<Rightarrow>
          if 0 < fr_filled r \<and> 0 < fr_avg_price r then Some (Inr r, w1)
          else if py_lower (fr_status r) \<in> set terminal then Some (Inr r, w1)
          else if end_ts \<le> clock w1 then Some (Inr r, w1)
          else if pause < 0 then Some (Inl ValueError, w1)
          else poll_loop step terminal end_ts pause (fr_order r)
                 (w1\<lparr>clock := clock w1 + pause, sleeps := sleeps w1 @ [pause]\<rparr>))"

text \<open>\<open>float(poll_interval_sec or 0.5)\<close>; \<open>float(max_wait_sec or 0.0)\<close> is the value of
  \<open>max_wait_sec\<close>.\<close>

definition sleep_arg :: "rat \<Rightarrow> rat" where
  "sleep_arg poll_interval_sec = (if poll_interval_sec = 0 then 1 / 2 else poll_interval_sec)"

text \<open>\<open>float(a or b or 0.0)\<close> under \<open>try\<close>, with \<open>0.0\<close> when it raises.\<close>

definition float_or_zero :: "py_runtime \<Rightarrow> json \<Rightarrow> rat" where
  "float_or_zero rt v =
     (case py_float rt (py_or v (JFloat 0)) of Inl e \<Rightarrow> 0 | Inr f \<Rightarrow> f)"

text \<open>\<open>resp if isinstance(resp, dict) else {"raw": resp}\<close> as a dictionary, and
  \<open>d[k] = v\<close>.\<close>

definition dict_of :: "json \<Rightarrow> dict" where
  "dict_of v = (if is_dict v then items v else [(''raw'', v)])"

fun dict_set :: "string \<Rightarrow> json \<Rightarrow> dict \<Rightarrow> dict" where
  "dict_set k v [] = [(k, v)]"
| "dict_set k v (kv # d) = (if fst kv = k then (k, v) # d else kv # dict_set k v d)"

subsection \<open>Kraken spot: \<open>kraken.py\<close>\<close>

text \<open>\<open>_signed_request\<close>; the form fields of the request are kept as its body.\<close>

definition kraken_signed_request ::
  "py_runtime \<Rightarrow> env \<Rightarrow> string \<Rightarrow> string \<Rightarrow> dict \<Rightarrow> world \<Rightarrow> (error + dict) \<times> world" where
  "kraken_signed_request rt env method path data w =
     (let m = py_upper (if method = [] then ''POST'' else method) in
      if m \<noteq> ''POST'' then
        (Inl (LiveTradingError ''Kraken private endpoints in this client use POST''), w)
      else
       (let nonce = show_int (millis env w);
            (r, w') = http_request env
              \<lparr>req_method = ''POST'', req_path = path, req_params = None,
               req_body = Some (JObj (dict_set ''nonce'' (JStr nonce) data)),
               req_signed = True\<rparr> w
        in case checked ''Kraken'' r of
             Inl e \<Rightarrow> (Inl e, w')
           | Inr resp \<Rightarrow>
              (case (if is_dict resp then jget (items resp) ''error'' else JNull) of
                 JArr (e # es) \<Rightarrow>
                   (Inl (LiveTradingError (''Kraken error: '' @ py_str rt (JArr (e # es)))), w')
               | _ \<Rightarrow> (Inr (dict_of resp), w'))))"

definition kraken_get_order ::
  "py_runtime \<Rightarrow> env \<Rightarrow> string \<Rightarrow> world \<Rightarrow> (error + dict) \<times> world" where
  "kraken_get_order rt env order_id w =
     (if order_id = [] then (Inl (LiveTradingError ''Kraken get_order requires order_id''), w)
      else
       (let (r, w') = kraken_signed_request rt env ''POST'' ''/0/private/QueryOrders''
                        [(''txid'', JStr order_id)] w
        in case r of Inl e \<Rightarrow> (Inl e, w')
           | Inr resp \<Rightarrow>
              (let res = py_or (jget resp ''result'') (JObj []);
                   od = py_or (if is_dict res then jget (items res) order_id else JNull) (JObj [])
               in (Inr (if is_dict od then items od else []), w'))))"

text \<open>What an iteration derives from the order: \<open>vol_exec\<close> is the filled quantity,
  \<open>cost / filled\<close> the average price.\<close>

definition kraken_report :: "py_runtime \<Rightarrow> dict \<Rightarrow> fill_report" where
  "kraken_report rt prev =
     (let status = py_str rt (py_or (jget prev ''status'') (JStr []));
          filled = float_or_zero rt (jget prev ''vol_exec'');
          avg_price =
            (case py_float rt (py_or (jget prev ''cost'') (JFloat 0)) of
               Inl e \<Rightarrow> 0
             | Inr cost \<Rightarrow> if 0 < filled \<and> 0 < cost then cost / filled else 0)
      in \<lparr>fr_filled = filled, fr_avg_price = avg_price, fr_status = status, fr_order = prev\<rparr>)"

definition kraken_poll ::
  "py_runtime \<Rightarrow> env \<Rightarrow> string \<Rightarrow> dict \<Rightarrow> world \<Rightarrow> (error + fill_report) \<times> world" where
  "kraken_poll rt env order_id prev w =
     (let (g, w1) = kraken_get_order rt env order_id w;
          cur = (case g of Inl e \<Rightarrow> prev | Inr od \<Rightarrow> od)
      in (Inr (kraken_report rt cur), w1))"

text \<open>The loop of \<open>wait_for_fill\<close>, from any of its iterations, and the function.\<close>

definition kraken_wait_loop ::
  "py_runtime \<Rightarrow> env \<Rightarrow> string \<Rightarrow> rat \<Rightarrow> rat \<Rightarrow> dict \<Rightarrow> world
     \<Rightarrow> ((error + fill_report) \<times> world) option" where
  "kraken_wait_loop rt env order_id end_ts pause prev w =
     poll_loop (kraken_poll rt env order_id) [''closed'', ''canceled'', ''cancelled'', ''expired'']
       end_ts pause prev w"

definition kraken_wait_for_fill ::
  "py_runtime \<Rightarrow> env \<Rightarrow> string \<Rightarrow> rat \<Rightarrow> rat \<Rightarrow> world
     \<Rightarrow> ((error + fill_report) \<times> world) option" where
  "kraken_wait_for_fill rt env order_id max_wait_sec poll_interval_sec w =
     (let end_ts = clock w + max_wait_sec in
      kraken_wait_loop rt env order_id end_ts (sleep_arg poll_interval_sec) [] w)"

subsection \<open>Gate USDT futures: \<open>wait_for_fill\<close>\<close>

definition gate_get_order :: "env \<Rightarrow> string \<Rightarrow> world \<Rightarrow> (error + json) \<times> world" where
  "gate_get_order env order_id w =
     (if order_id = [] then
        (Inl (LiveTradingError ''Gate futures get_order requires order_id''), w)
      else signed_request env ''Gate'' ''GET'' (''/api/v4/futures/usdt/orders/'' @ order_id)
             None None w)"

text \<open>The multiplier read before the loop; any exception leaves it at 1.\<close>

definition gate_fill_multiplier :: "py_runtime \<Rightarrow> error + dict \<Rightarrow> rat" where
  "gate_fill_multiplier rt r =
     (case r of Inl e \<Rightarrow> 1
      | Inr meta \<Rightarrow>
         (let qm = gate_to_dec rt
                     (py_or (jget meta ''quanto_multiplier'')
                        (py_or (jget meta ''contract_size'') (JStr ''1'')))
          in if qm \<le> 0 then 1 else qm))"

text \<open>The filled quantity is \<open>float(Decimal(str(filled_ct)) * qm)\<close>, a product in the
  \<open>Decimal\<close> context, under \<open>try\<close>.\<close>

definition gate_report :: "py_runtime \<Rightarrow> rat \<Rightarrow> dict \<Rightarrow> fill_report" where
  "gate_report rt qm prev =
     (let status = py_str rt (py_or (jget prev ''status'') (JStr []));
          filled =
            (case py_float rt (py_or (jget prev ''filled_size'')
                                 (py_or (jget prev ''filledSize'') (JFloat 0))) of
               Inl e \<Rightarrow> 0
             | Inr f \<Rightarrow> (case ctx_round (\<bar>f\<bar> * qm) of Inl e \<Rightarrow> 0 | Inr x \<Rightarrow> x));
          avg_price =
            float_or_zero rt (py_or (jget prev ''fill_price'')
                                (py_or (jget prev ''fillPrice'') (jget prev ''price'')))
      in \<lparr>fr_filled = filled, fr_avg_price = avg_price, fr_status = status, fr_order = prev\<rparr>)"

definition gate_poll ::
  "py_runtime \<Rightarrow> env \<Rightarrow> string \<Rightarrow> rat \<Rightarrow> dict \<Rightarrow> world \<Rightarrow> (error + fill_report) \<times> world" where
  "gate_poll rt env order_id qm prev w =
     (let (g, w1) = gate_get_order env order_id w;
          cur = (case g of Inl e \<Rightarrow> prev | Inr resp \<Rightarrow> dict_of resp)
      in (Inr (gate_report rt qm cur), w1))"

definition gate_wait_loop ::
  "py_runtime \<Rightarrow> env \<Rightarrow> string \<Rightarrow> rat \<Rightarrow> rat \<Rightarrow> rat \<Rightarrow> dict \<Rightarrow> world
     \<Rightarrow> ((error + fill_report) \<times> world) option" where
  "gate_wait_loop rt env order_id qm end_ts pause prev w =
     poll_loop (gate_poll rt env order_id qm) [''finished'', ''cancelled'', ''canceled'']
       end_ts pause prev w"

definition gate_wait_for_fill ::
  "py_runtime \<Rightarrow> env \<Rightarrow> string \<Rightarrow> string \<Rightarrow> rat \<Rightarrow> rat \<Rightarrow> world
     \<Rightarrow> ((error + fill_report) \<times> world) option" where
  "gate_wait_for_fill rt env order_id contract max_wait_sec poll_interval_sec w =
     (let end_ts = clock w + max_wait_sec;
          (c, w0) = gate_get_contract env contract w;
          qm = gate_fill_multiplier rt c
      in gate_wait_loop rt env order_id qm end_ts (sleep_arg poll_interval_sec) [] w0)"

subsection \<open>Kraken futures: \<open>kraken_futures.py\<close>\<close>

definition kraken_futures_signed_request ::
  "py_runtime \<Rightarrow> env \<Rightarrow> string \<Rightarrow> string \<Rightarrow> dict \<Rightarrow> world \<Rightarrow> (error + dict) \<times> world" where
  "kraken_futures_signed_request rt env method path data w =
     (let m = py_upper (if method = [] then ''POST'' else method);
          (r, w') = http_request env
            \<lparr>req_method = m, req_path = path, req_params = None,
             req_body = (if data = [] then None else Some (JObj data)), req_signed = True\<rparr> w
      in case checked ''KrakenFutures'' r of
           Inl e \<Rightarrow> (Inl e, w')
         | Inr resp \<Rightarrow>
            if is_dict resp
               \<and> (py_lower (py_str rt (py_or (jget (items resp) ''result'') (JStr []))) = ''error''
                  \<or> truthy (jget (items resp) ''errors''))
            then (Inl (LiveTradingError (''KrakenFutures error: '' @ py_str rt resp)), w')
            else (Inr (dict_of resp), w'))"

definition kraken_futures_get_order ::
  "py_runtime \<Rightarrow> env \<Rightarrow> string \<Rightarrow> string \<Rightarrow> world \<Rightarrow> (error + dict) \<times> world" where
  "kraken_futures_get_order rt env order_id client_order_id w =
     (if order_id \<noteq> [] then
        kraken_futures_signed_request rt env ''GET'' ''/derivatives/api/v3/order''
          [(''order_id'', JStr order_id)] w
      else if client_order_id \<noteq> [] then
        kraken_futures_signed_request rt env ''GET'' ''/derivatives/api/v3/order''
          [(''cliOrdId'', JStr client_order_id)] w
      else
        (Inl (LiveTradingError ''KrakenFutures get_order requires order_id or client_order_id''),
         w))"

definition kraken_futures_report :: "py_runtime \<Rightarrow> dict \<Rightarrow> fill_report" where
  "kraken_futures_report rt prev =
     \<lparr>fr_filled = float_or_zero rt (py_or (jget prev ''filledSize'') (jget prev ''filled_size'')),
      fr_avg_price =
        float_or_zero rt (py_or (jget prev ''avgFillPrice'') (jget prev ''avg_fill_price'')),
      fr_status =
        py_str rt (py_or (jget prev ''status'') (py_or (jget prev ''orderStatus'') (JStr []))),
      fr_order = prev\<rparr>"

definition kraken_futures_poll ::
  "py_runtime \<Rightarrow> env \<Rightarrow> string \<Rightarrow> string \<Rightarrow> dict \<Rightarrow> world \<Rightarrow> (error + fill_report) \<times> world" where
  "kraken_futures_poll rt env order_id client_order_id prev w =
     (let (g, w1) = kraken_futures_get_order rt env order_id client_order_id w;
          cur = (case g of Inl e \<Rightarrow> prev | Inr od \<Rightarrow> od)
      in (Inr (kraken_futures_report rt cur), w1))"

definition kraken_futures_wait_loop ::
  "py_runtime \<Rightarrow> env \<Rightarrow> string \<Rightarrow> string \<Rightarrow> rat \<Rightarrow> rat \<Rightarrow> dict \<Rightarrow> world
     \<Rightarrow> ((error + fill_report) \<times> world) option" where
  "kraken_futures_wait_loop rt env order_id client_order_id end_ts pause prev w =
     poll_loop (kraken_futures_poll rt env order_id client_order_id)
       [''filled'', ''cancelled'', ''canceled'', ''rejected''] end_ts pause prev w"

definition kraken_futures_wait_for_fill ::
  "py_runtime \<Rightarrow> env \<Rightarrow> string \<Rightarrow> string \<Rightarrow> rat \<Rightarrow> rat \<Rightarrow> world
     \<Rightarrow> ((error + fill_report) \<times> world) option" where
  "kraken_futures_wait_for_fill rt env order_id client_order_id max_wait_sec poll_interval_sec w =
     (let end_ts = clock w + max_wait_sec in
      kraken_futures_wait_loop rt env order_id client_order_id end_ts
        (sleep_arg poll_interval_sec) [] w)"

subsection \<open>KuCoin futures: \<open>wait_for_fill\<close>\<close>

definition kucoin_futures_get_order ::
  "env \<Rightarrow> string \<Rightarrow> string \<Rightarrow> world \<Rightarrow> (error + json) \<times> world" where
  "kucoin_futures_get_order env order_id client_order_id w =
     (if order_id \<noteq> [] then
        signed_request env ''KuCoinFutures'' ''GET'' (''/api/v1/orders/'' @ order_id) None None w
      else if client_order_id \<noteq> [] then
        signed_request env ''KuCoinFutures'' ''GET'' ''/api/v1/orders/byClientOid''
          (Some [(''clientOid'', JStr client_order_id)]) None w
      else
        (Inl (LiveTradingError ''KuCoinFutures get_order requires order_id or client_order_id''),
         w))"

text \<open>
  What an iteration derives from the response. The order is
  \<open>last.get("data") or {}\<close>; its \<open>get\<close> is called outside every \<open>try\<close>, so an order
  that is no dictionary raises \<open>AttributeError\<close>. The contract of the order's symbol
  is looked up in every iteration, under \<open>try\<close>, for the multiplier.
\<close>

definition kucoin_futures_report ::
  "py_runtime \<Rightarrow> env \<Rightarrow> dict \<Rightarrow> world \<Rightarrow> (error + fill_report) \<times> world" where
  "kucoin_futures_report rt env prev w =
     (let od = py_or (jget prev ''data'') (JObj []) in
      if \<not> is_dict od then (Inl AttributeError, w)
      else
       (let d = items od;
            status = py_str rt (py_or (jget d ''status'') (JStr []));
            deal_ct = float_or_zero rt (jget d ''dealSize'');
            deal_value = float_or_zero rt (jget d ''dealValue'');
            symb = py_str rt (py_or (jget d ''symbol'') (JStr []));
            (c, w1) = kucoin_get_contract rt env symb w;
            mult =
              (case c of Inl e \<Rightarrow> 1
               | Inr meta \<Rightarrow>
                  (case py_float rt (py_or (jget meta ''multiplier'')
                                       (py_or (jget meta ''lotSize'') (JFloat 1))) of
                     Inl e \<Rightarrow> 1
                   | Inr m \<Rightarrow> if m \<le> 0 then 1 else m));
            filled = \<bar>deal_ct\<bar> * mult;
            avg_price = (if 0 < filled \<and> 0 < deal_value then deal_value / filled else 0)
        in (Inr \<lparr>fr_filled = filled, fr_avg_price = avg_price, fr_status = status,
                  fr_order = prev\<rparr>, w1)))"

definition kucoin_futures_poll ::
  "py_runtime \<Rightarrow> env \<Rightarrow> string \<Rightarrow> dict \<Rightarrow> world \<Rightarrow> (error + fill_report) \<times> world" where
  "kucoin_futures_poll rt env order_id prev w =
     (let (g, w1) = kucoin_futures_get_order env order_id [] w;
          cur = (case g of Inl e \<Rightarrow> prev | Inr resp \<Rightarrow> dict_of resp)
      in kucoin_futures_report rt env cur w1)"

definition kucoin_futures_wait_loop ::
  "py_runtime \<Rightarrow> env \<Rightarrow> string \<Rightarrow> rat \<Rightarrow> rat \<Rightarrow> dict \<Rightarrow> world
     \<Rightarrow> ((error + fill_report) \<times> world) option" where
  "kucoin_futures_wait_loop rt env order_id end_ts pause prev w =
     poll_loop (kucoin_futures_poll rt env order_id) [''done'', ''canceled'', ''cancelled'', ''filled'']
       end_ts pause prev w"

definition kucoin_futures_wait_for_fill ::
  "py_runtime \<Rightarrow> env \<Rightarrow> string \<Rightarrow> rat \<Rightarrow> rat \<Rightarrow> world
     \<Rightarrow> ((error + fill_report) \<times> world) option" where
  "kucoin_futures_wait_for_fill rt env order_id max_wait_sec poll_interval_sec w =
     (let end_ts = clock w + max_wait_sec in
      kucoin_futures_wait_loop rt env order_id end_ts (sleep_arg poll_interval_sec) [] w)"


section \<open>Claims\<close>

subsection \<open>The signal mapping\<close>

text \<open>
  C1. The signal mapping is total and exhaustive: for every string \<open>s\<close>,
  \<open>_signal_to_sides\<close> returns (buy, long, False) exactly when the stripped, lowercased
  \<open>s\<close> is \<open>open_long\<close> or \<open>add_long\<close>; (sell, short, False) exactly for
  \<open>open_short\<close>, \<open>add_short\<close>; (sell, long, True) exactly for \<open>close_long\<close>,
  \<open>reduce_long\<close>; (buy, short, True) exactly for \<open>close_short\<close>, \<open>reduce_short\<close>;
  and it raises \<open>LiveTradingError\<close> exactly for every other string.
\<close>

theorem C1_signal_mapping_total:
  "(signal_to_sides (Some s) = Inr (''buy'', ''long'', False)
      \<longleftrightarrow> norm_signal s \<in> {''open_long'', ''add_long''})
   \<and> (signal_to_sides (Some s) = Inr (''sell'', ''short'', False)
      \<longleftrightarrow> norm_signal s \<in> {''open_short'', ''add_short''})
   \<and> (signal_to_sides (Some s) = Inr (''sell'', ''long'', True)
      \<longleftrightarrow> norm_signal s \<in> {''close_long'', ''reduce_long''})
   \<and> (signal_to_sides (Some s) = Inr (''buy'', ''short'', True)
      \<longleftrightarrow> norm_signal s \<in> {''close_short'', ''reduce_short''})
   \<and> (is_error (signal_to_sides (Some s))
      \<longleftrightarrow> norm_signal s \<notin> {''open_long'', ''add_long'', ''open_short'', ''add_short'',
            ''close_long'', ''reduce_long'', ''close_short'', ''reduce_short''})"
  by (simp add: signal_to_sides_def norm_signal_def or_empty_def is_error_def Let_def)

theorem C1_signal_mapping_witness:
  "signal_to_sides (Some ''  Open_Long '') = Inr (''buy'', ''long'', False)
   \<and> signal_to_sides (Some ''REDUCE_SHORT'') = Inr (''buy'', ''short'', True)
   \<and> is_error (signal_to_sides (Some ''hold''))"
proof -
  have a: "norm_signal ''  Open_Long '' = ''open_long''"
    by code_simp
  have b: "norm_signal ''REDUCE_SHORT'' = ''reduce_short''"
    by code_simp
  have c: "norm_signal ''hold'' = ''hold''"
    by code_simp
  show ?thesis
    using C1_signal_mapping_total [of "''  Open_Long ''"]
      C1_signal_mapping_total [of "''REDUCE_SHORT''"]
      C1_signal_mapping_total [of "''hold''"]
    by (simp add: a b c)
qed

subsection \<open>Spot rejects short signals\<close>

lemma sublist_py_strip: "sublist (py_strip s) s"
proof -
  have "sublist (rev (dropWhile is_space (rev (dropWhile is_space s)))) (dropWhile is_space s)"
    by (metis sublist_dropWhile sublist_rev_left)
  moreover have "sublist (dropWhile is_space s) s" by simp
  ultimately show ?thesis unfolding py_strip_def by (rule sublist_order.order_trans)
qed

lemma sublist_py_lower: "sublist xs ys \<Longrightarrow> sublist (py_lower xs) (py_lower ys)"
proof -
  assume "sublist xs ys"
  then obtain ps ss where "ys = ps @ xs @ ss" by (auto simp: sublist_def)
  then have "py_lower ys = py_lower ps @ py_lower xs @ py_lower ss"
    by (simp add: py_lower_def)
  then show ?thesis by (simp only: sublist_appendI)
qed

lemma short_in_short_signals: "t \<in> short_signals \<Longrightarrow> sublist ''short'' t"
proof -
  assume "t \<in> short_signals"
  then consider "t = ''open_'' @ ''short'' @ []" | "t = ''add_'' @ ''short'' @ []"
    | "t = ''close_'' @ ''short'' @ []" | "t = ''reduce_'' @ ''short'' @ []"
    by (auto simp: short_signals_def)
  then show ?thesis by cases (simp_all only: sublist_appendI)
qed

lemma short_signal_contains_short:
  assumes "norm_signal s \<in> short_signals"
  shows "sublist ''short'' (py_lower s)"
proof -
  have "sublist (norm_signal s) (py_lower s)"
    unfolding norm_signal_def by (rule sublist_py_lower [OF sublist_py_strip])
  with short_in_short_signals [OF assms] show ?thesis
    by (rule sublist_order.order_trans)
qed

lemma short_signal_sides:
  assumes "norm_signal s \<in> short_signals"
  shows "\<exists>r. signal_to_sides (Some s) = Inr r"
  using assms
  by (auto simp: signal_to_sides_def norm_signal_def or_empty_def short_signals_def Let_def)

text \<open>
  C5. For every client, every positive amount and every signal whose normalised form is
  a short-side signal (\<open>open_short\<close>, \<open>add_short\<close>, \<open>close_short\<close>, \<open>reduce_short\<close>),
  \<open>place_order_from_signal\<close> with a market type that normalises to \<open>spot\<close> raises
  \<open>LiveTradingError\<close>; the result is the error, so no adapter method is called.
\<close>

theorem C5_spot_rejects_short:
  assumes "0 < a"
    and "norm_signal s \<in> short_signals"
    and "resolve_market_type market_type (cfg_of exchange_config) = Inr ''spot''"
  shows "place_order_from_signal rt client (Some s) symbol (Some a) market_type
           exchange_config client_order_id
         = Inl (LiveTradingError ''spot market does not support short signals'')"
proof -
  obtain side pos ro where r: "signal_to_sides (Some s) = Inr (side, pos, ro)"
    using short_signal_sides [OF assms(2)] by (metis prod_cases3)
  have c: "sublist ''short'' (py_lower (or_empty (Some s)))"
    using short_signal_contains_short [OF assms(2)] by (simp add: or_empty_def)
  have m: "resolve_market_type market_type
             (case exchange_config of None \<Rightarrow> [] | Some d \<Rightarrow> d) = Inr ''spot''"
    using assms(3) by (simp add: cfg_of_def)
  show ?thesis
    unfolding place_order_from_signal_def Let_def
    using assms(1) r c m by simp
qed

theorem C5_spot_rejects_short_witness:
  "place_order_from_signal sample_runtime KucoinFuturesClient (Some '' Open_Short'') ''BTC/USDT''
      (Some (1 / 2)) (Some ''SPOT'') None None
     = Inl (LiveTradingError ''spot market does not support short signals'')"
proof -
  have a: "(0::rat) < 1 / 2" by simp
  have b: "norm_signal '' Open_Short'' \<in> short_signals"
    unfolding short_signals_def by code_simp
  have c: "resolve_market_type (Some ''SPOT'') (cfg_of None) = Inr ''spot''"
    by code_simp
  show ?thesis by (rule C5_spot_rejects_short [OF a b c])
qed

subsection \<open>Base quantity to contracts\<close>

text \<open>Digits, the adjusted exponent and the rounding of the context.\<close>

lemma ndigits_bounds: "0 < n \<Longrightarrow> 10 ^ (ndigits n - 1) \<le> n \<and> n < 10 ^ ndigits n"
proof (induction n rule: ndigits.induct)
  case (1 n)
  show ?case
  proof (cases "n < 10")
    case True
    with 1(2) show ?thesis by (simp add: ndigits.simps [of n])
  next
    case False
    then have pos: "0 < n div 10" by simp
    from 1(1) [OF False pos] have ih: "10 ^ (ndigits (n div 10) - 1) \<le> n div 10"
      "n div 10 < 10 ^ ndigits (n div 10)" by simp_all
    have nd: "ndigits n = Suc (ndigits (n div 10))" using False by (simp add: ndigits.simps [of n])
    have g: "0 < ndigits (n div 10)" by (simp add: ndigits.simps [of "n div 10"])
    have "10 * 10 ^ (ndigits (n div 10) - 1) \<le> 10 * (n div 10)" using ih(1) by simp
    also have "\<dots> \<le> n" by simp
    finally have a: "10 ^ (ndigits n - 1) \<le> n" using nd g
      by (metis Suc_pred diff_Suc_1 power_Suc)
    have "n < 10 * (n div 10) + 10" by presburger
    also have "\<dots> \<le> 10 * 10 ^ ndigits (n div 10)" using ih(2) by simp
    finally have b: "n < 10 ^ ndigits n" using nd by simp
    show ?thesis using a b by simp
  qed
qed

lemma ndigits_bounds_rat:
  assumes "0 < n"
  shows "(10::rat) ^ (ndigits n - 1) \<le> of_int n" "(of_int n :: rat) < 10 ^ ndigits n"
proof -
  from ndigits_bounds [OF assms] have a: "10 ^ (ndigits n - 1) \<le> n" and b: "n < 10 ^ ndigits n"
    by simp_all
  from a have "(of_int (10 ^ (ndigits n - 1)) :: rat) \<le> of_int n" by (simp only: of_int_le_iff)
  then show "(10::rat) ^ (ndigits n - 1) \<le> of_int n" by simp
  from b have "(of_int n :: rat) < of_int (10 ^ ndigits n)" by (simp only: of_int_less_iff)
  then show "(of_int n :: rat) < 10 ^ ndigits n" by simp
qed

lemma ndigits_pos: "0 < ndigits n"
  by (simp add: ndigits.simps [of n])

lemma adjusted_bounds:
  assumes "0 < x"
  shows "10 powi adjusted x \<le> x" and "x < 10 powi (adjusted x + 1)"
proof -
  obtain a b where q: "quotient_of x = (a, b)" by force
  have bpos: "0 < b" using q quotient_of_denom_pos by blast
  have xeq: "x = of_int a / of_int b" using q by (rule quotient_of_div)
  have apos: "0 < a"
  proof (rule ccontr)
    assume "\<not> 0 < a"
    then have "(of_int a :: rat) \<le> 0" by simp
    then have "x \<le> 0" unfolding xeq using bpos by (simp add: divide_nonpos_pos)
    with assms show False by simp
  qed
  define da where "da = ndigits a"
  define db where "db = ndigits b"
  define d where "d = int da - int db"
  have da1: "1 \<le> da" and db1: "1 \<le> db" using ndigits_pos [of a] ndigits_pos [of b]
    by (simp_all add: da_def db_def)
  have A: "(10::rat) ^ (da - 1) \<le> of_int a" "(of_int a :: rat) < 10 ^ da"
    using ndigits_bounds_rat [OF apos] by (simp_all add: da_def)
  have B: "(10::rat) ^ (db - 1) \<le> of_int b" "(of_int b :: rat) < 10 ^ db"
    using ndigits_bounds_rat [OF bpos] by (simp_all add: db_def)
  have bposr: "(0::rat) < of_int b" using bpos by simp
  have aposr: "(0::rat) < of_int a" using apos by simp
  have lo: "10 powi (d - 1) \<le> x"
  proof -
    have "d - 1 = int (da - 1) - int db" using da1 by (simp add: d_def of_nat_diff)
    then have "(10::rat) powi (d - 1) = 10 powi (int (da - 1) - int db)"
      by (simp only:)
    also have "\<dots> = 10 ^ (da - 1) / 10 ^ db"
      by (simp add: power_int_diff)
    also have "\<dots> \<le> of_int a / of_int b"
      by (rule frac_le) (use A B bposr aposr in simp_all)
    finally show ?thesis by (simp add: xeq)
  qed
  have hi: "x < 10 powi (d + 1)"
  proof -
    have p: "(0::rat) < 10 ^ (db - 1)" by simp
    have "of_int a / of_int b < 10 ^ da / (of_int b :: rat)"
      using A(2) bposr by (simp add: divide_strict_right_mono)
    also have "\<dots> \<le> 10 ^ da / 10 ^ (db - 1)"
      by (rule divide_left_mono) (use B p bposr aposr in simp_all)
    also have "\<dots> = 10 powi (int da - int (db - 1))"
      by (simp add: power_int_diff)
    also have "\<dots> = 10 powi (d + 1)"
      using db1 by (simp add: d_def of_nat_diff algebra_simps)
    finally show ?thesis by (simp add: xeq)
  qed
  have adj: "adjusted x = (if 10 powi d \<le> x then d else d - 1)"
    using assms q by (simp add: adjusted_def da_def db_def d_def Let_def abs_of_pos)
  show "10 powi adjusted x \<le> x" using adj lo by simp
  show "x < 10 powi (adjusted x + 1)" using adj hi by (auto simp: not_le)
qed

lemma power_int_10_less_cancel:
  assumes "(10::rat) powi a < 10 powi b"
  shows "a < b"
proof (rule ccontr)
  assume "\<not> a < b"
  then have "b \<le> a" by simp
  then have "(10::rat) powi b \<le> 10 powi a" by (simp add: power_int_increasing)
  with assms show False by simp
qed

lemma round_half_even_of_int: "round_half_even (of_int n) = n"
  by (simp add: round_half_even_def)

lemma ctx_round_exact:
  assumes "exact_in_context x"
  shows "ctx_round x = Inr x"
proof -
  from assms obtain c k where x: "x = of_int c * 10 powi k" and c: "0 < c" "c < 10 ^ 28"
    and k: "Etiny \<le> k" and e: "adjusted x \<le> Emax"
    unfolding exact_in_context_def by blast
  have p10: "(0::rat) < 10 powi k" by (simp add: zero_less_power_int)
  have xpos: "0 < x" unfolding x using c p10 by simp
  define qe where "qe = max (adjusted x - (prec - 1)) Etiny"
  have "(of_int c :: rat) < of_int (10 ^ 28)" using c(2) by (simp only: of_int_less_iff)
  then have "(of_int c :: rat) < 10 powi 28" by simp
  then have "x < 10 powi 28 * 10 powi k" unfolding x using p10 by (simp add: mult_strict_right_mono)
  then have "x < 10 powi (28 + k)" by (simp add: power_int_add)
  with adjusted_bounds(1) [OF xpos] have "(10::rat) powi adjusted x < 10 powi (28 + k)" by simp
  then have "adjusted x < 28 + k" by (rule power_int_10_less_cancel)
  then have qk: "qe \<le> k" using k by (simp add: qe_def prec_def)
  define j where "j = nat (k - qe)"
  have kj: "k = qe + int j" using qk by (simp add: j_def)
  have "x / 10 powi qe = of_int c * (10 powi (qe + int j) / 10 powi qe)"
    unfolding x kj by simp
  also have "10 powi (qe + int j) / 10 powi qe = (10::rat) ^ j"
    by (simp add: power_int_add)
  finally have "x / 10 powi qe = of_int (c * 10 ^ j)" by simp
  then have "round_half_even (x / 10 powi qe) = c * 10 ^ j"
    by (simp only: round_half_even_of_int)
  then have "(of_int (round_half_even (x / 10 powi qe)) :: rat) * 10 powi qe
       = of_int c * (10 ^ j * 10 powi qe)" by (simp add: mult.assoc)
  also have "(10::rat) ^ j * 10 powi qe = 10 powi k"
    unfolding kj by (simp add: power_int_add)
  finally have r: "of_int (round_half_even (x / 10 powi qe)) * 10 powi qe = x"
    by (simp add: x)
  show ?thesis
    using xpos e r unfolding ctx_round_def Let_def qe_def [symmetric] by simp
qed

lemma dec_div_exact:
  assumes "y \<noteq> 0" and "exact_in_context (x / y)"
  shows "dec_div x y = Inr (x / y)"
  using assms by (simp add: dec_div_def ctx_round_exact)

lemma exact_47: "exact_in_context (47 / 10)"
proof -
  have "(47 / 10 :: rat) = of_int 47 * 10 powi (- 1)" by (simp add: power_int_minus)
  moreover have "adjusted (47 / 10) \<le> Emax" by code_simp
  ultimately show ?thesis unfolding exact_in_context_def Etiny_def
    by (intro exI [of _ 47] exI [of _ "- 1"]) simp
qed


lemma adjusted_less:
  assumes "0 < x" and "x < 10 powi e"
  shows "adjusted x < e"
proof -
  from adjusted_bounds(1) [OF assms(1)] assms(2) have "(10::rat) powi adjusted x < 10 powi e"
    by simp
  then show ?thesis by (rule power_int_10_less_cancel)
qed

lemma float_value_exact:
  assumes "float_value q" and "0 < q"
  shows "exact_in_context q"
proof -
  from assms(1) obtain c k where q: "q = of_int c * 10 powi k" and c: "\<bar>c\<bar> < 10 ^ 17"
    and k: "- 400 \<le> k" "k \<le> 400"
    unfolding float_value_def by blast
  have p10: "(0::rat) < 10 powi k" by (simp add: zero_less_power_int)
  have cpos: "0 < c"
  proof (rule ccontr)
    assume "\<not> 0 < c"
    then have "(of_int c :: rat) \<le> 0" by simp
    then have "q \<le> 0" unfolding q using p10 by (simp add: mult_le_0_iff)
    with assms(2) show False by simp
  qed
  have c28: "c < 10 ^ 28" using c by simp
  have "c < 10 ^ 17" using c by simp
  then have "(of_int c :: rat) < of_int (10 ^ 17)" by (simp only: of_int_less_iff)
  then have "(of_int c :: rat) < 10 powi 17" by simp
  then have "q < 10 powi 17 * 10 powi k" unfolding q using p10
    by (simp add: mult_strict_right_mono)
  then have "q < 10 powi (17 + k)" by (simp add: power_int_add)
  also have "\<dots> \<le> 10 powi 417" by (rule power_int_increasing) (use k in simp_all)
  finally have "q < 10 powi 417" .
  with assms(2) have "adjusted q < 417" by (rule adjusted_less)
  then have e: "adjusted q \<le> Emax" by (simp add: Emax_def)
  show ?thesis unfolding exact_in_context_def
    using q cpos c28 k e by (intro exI [of _ c] exI [of _ k]) (simp add: Etiny_def)
qed

lemma dec_to_int_down_pos: "0 \<le> x \<Longrightarrow> dec_to_int_down x = \<lfloor>x\<rfloor>"
  by (simp add: dec_to_int_down_def)

lemma kucoin_count:
  assumes "0 < q"
  shows "fst (kucoin_base_to_contracts rt env symbol q w)
     = (case kucoin_multiplier rt
              (meta_of (fst (kucoin_get_contract rt env (to_kucoin_futures_symbol env symbol) w))) of
          Inl e \<Rightarrow> Inl e
        | Inr m \<Rightarrow> (case dec_div q (if m \<le> 0 then 1 else m) of Inl e \<Rightarrow> Inl e
                     | Inr ct \<Rightarrow> Inr (dec_to_int_down ct)))"
  using assms
  by (simp add: kucoin_base_to_contracts_def meta_of_def Let_def
      split: prod.splits sum.splits)

lemma gate_count:
  assumes "0 < q"
  shows "fst (gate_base_to_contracts rt env contract q w)
     = (case dec_div q (if gate_multiplier rt (meta_of (fst (gate_get_contract env contract w))) \<le> 0
                        then 1
                        else gate_multiplier rt (meta_of (fst (gate_get_contract env contract w)))) of
          Inl e \<Rightarrow> Inl e
        | Inr ct \<Rightarrow> Inr (dec_to_int_down ct))"
  using assms
  by (simp add: gate_base_to_contracts_def meta_of_def Let_def
      split: prod.splits sum.splits)

lemma floor_bounds: "of_int \<lfloor>x\<rfloor> \<le> (x::rat) \<and> x < of_int \<lfloor>x\<rfloor> + 1"
  by linarith

text \<open>
  When the decimal context holds the quotient \<open>q / m\<close> without rounding (at most 28
  significant digits), the count is \<open>\<lfloor>q / m\<rfloor>\<close>.
\<close>

lemma contract_count_floor_exact:
  assumes "0 < q" and "0 < m" and "exact_in_context (q / m)"
  shows "(fst (kucoin_get_contract rt env (to_kucoin_futures_symbol env symbol) w) = Inr meta
            \<and> kucoin_multiplier rt meta = Inr m
          \<longrightarrow> (\<exists>n. fst (kucoin_base_to_contracts rt env symbol q w) = Inr n
                 \<and> n = \<lfloor>q / m\<rfloor> \<and> of_int n \<le> q / m \<and> q / m < of_int n + 1))
       \<and> (fst (gate_get_contract env contract w) = Inr gmeta \<and> gate_multiplier rt gmeta = m
          \<longrightarrow> (\<exists>n. fst (gate_base_to_contracts rt env contract q w) = Inr n
                 \<and> n = \<lfloor>q / m\<rfloor> \<and> of_int n \<le> q / m \<and> q / m < of_int n + 1))"
proof -
  have d: "dec_div q m = Inr (q / m)" using assms by (intro dec_div_exact) simp_all
  have f: "dec_to_int_down (q / m) = \<lfloor>q / m\<rfloor>" using assms by (simp add: dec_to_int_down_pos)
  note b = floor_bounds [of "q / m"]
  show ?thesis using assms(1,2) d f b by (simp add: kucoin_count gate_count meta_of_def)
qed

text \<open>
  Claim C2 asks for a contract count \<open>n\<close> with \<open>n \<le> q / m < n + 1\<close> for every positive
  base quantity \<open>q\<close> and every positive multiplier \<open>m\<close> of the metadata.
  \<open>_base_to_contracts\<close> divides in the decimal context, which rounds the quotient
  half-even to 28 significant digits, and truncates the rounded quotient. For the base
  quantity \<open>2e28\<close> and the multiplier 3 the quotient \<open>6666666666666666666666666666.67\<close>
  is rounded up to \<open>6666666666666666666666666667\<close>, which is the count of both clients and
  is above \<open>q / m\<close>. The example of the claim, \<open>0.0047\<close> with the multiplier \<open>0.001\<close>,
  gives 4 contracts.
\<close>

theorem C2_count_above_quotient:
  "kucoin_multiplier sample_runtime [(''symbol'', JStr ''XBTUSDTM''), (''multiplier'', JInt 3)]
     = Inr 3
   \<and> gate_multiplier sample_runtime [(''name'', JStr ''BTC_USDT''), (''quanto_multiplier'', JInt 3)]
     = 3
   \<and> fst (kucoin_base_to_contracts sample_runtime (sample_env (kucoin_contracts (JInt 3)) 0)
          ''XBTUSDTM'' (2 * 10 ^ 28) world0) = Inr 6666666666666666666666666667
   \<and> fst (gate_base_to_contracts sample_runtime (sample_env (gate_contract (JInt 3)) 0)
          ''BTC_USDT'' (2 * 10 ^ 28) world0) = Inr 6666666666666666666666666667
   \<and> \<not> (of_int 6666666666666666666666666667 \<le> (2 * 10 ^ 28) / (3::rat))
   \<and> fst (kucoin_base_to_contracts sample_runtime (sample_env (kucoin_contracts (JStr ''0.001'')) 0)
          ''XBTUSDTM'' (47 / 10000) world0) = Inr 4
   \<and> fst (gate_base_to_contracts sample_runtime (sample_env (gate_contract (JStr ''0.001'')) 0)
          ''BTC_USDT'' (47 / 10000) world0) = Inr 4"
proof -
  have a: "kucoin_multiplier sample_runtime
             [(''symbol'', JStr ''XBTUSDTM''), (''multiplier'', JInt 3)] = Inr 3"
    by code_simp
  have a': "gate_multiplier sample_runtime
             [(''name'', JStr ''BTC_USDT''), (''quanto_multiplier'', JInt 3)] = 3"
    by code_simp
  have b: "fst (kucoin_base_to_contracts sample_runtime (sample_env (kucoin_contracts (JInt 3)) 0)
          ''XBTUSDTM'' (2 * 10 ^ 28) world0) = Inr 6666666666666666666666666667"
    by code_simp
  have b': "fst (gate_base_to_contracts sample_runtime (sample_env (gate_contract (JInt 3)) 0)
          ''BTC_USDT'' (2 * 10 ^ 28) world0) = Inr 6666666666666666666666666667"
    by code_simp
  have c: "\<not> (of_int 6666666666666666666666666667 \<le> (2 * 10 ^ 28) / (3::rat))"
    by simp
  have d: "fst (kucoin_base_to_contracts sample_runtime
                 (sample_env (kucoin_contracts (JStr ''0.001'')) 0) ''XBTUSDTM'' (47 / 10000) world0)
           = Inr 4"
    by code_simp
  have d': "fst (gate_base_to_contracts sample_runtime
                 (sample_env (gate_contract (JStr ''0.001'')) 0) ''BTC_USDT'' (47 / 10000) world0)
           = Inr 4"
    by code_simp
  from a a' b b' c d d' show ?thesis by (intro conjI)
qed

subsection \<open>Missing contract metadata\<close>

lemma kucoin_multiplier_empty: "kucoin_multiplier rt [] = Inr 0"
  by (simp add: kucoin_multiplier_def jget_def py_or_def truthy_def py_decimal_def
      parse_plain_def parse_unsigned_def is_digit_def digits_val_def Let_def)

lemma gate_multiplier_empty: "gate_multiplier rt [] = 0"
  by (simp add: gate_multiplier_def gate_to_dec_def jget_def py_or_def truthy_def py_decimal_def
      parse_plain_def parse_unsigned_def is_digit_def digits_val_def Let_def)

lemma dec_div_one_float:
  assumes "0 < q" and "float_value q"
  shows "dec_div q 1 = Inr q"
  using dec_div_exact [of 1 q] float_value_exact [OF assms(2,1)] by simp

lemma float_value_5_2: "float_value (5 / 2)"
proof -
  have "(5 / 2 :: rat) = of_int 25 * 10 powi (- 1)" by (simp add: power_int_minus)
  then show ?thesis unfolding float_value_def
    by (intro exI [of _ 25] exI [of _ "- 1"]) simp
qed

text \<open>
  C10. When the contract metadata cannot be fetched (\<open>get_contract\<close> raises or returns
  the empty dictionary) or the multiplier read from it is not strictly positive,
  \<open>_base_to_contracts\<close> of \<open>KucoinFuturesClient\<close> and of \<open>GateUsdtFuturesClient\<close>
  divides by 1: for every positive base quantity \<open>q\<close> (a float) it returns
  \<open>\<lfloor>q\<rfloor>\<close> contracts and no error.
\<close>

theorem C10_missing_metadata_multiplier_one:
  assumes "0 < q" and "float_value q"
  shows "((case fst (kucoin_get_contract rt env (to_kucoin_futures_symbol env symbol) w) of
             Inl e \<Rightarrow> True
           | Inr meta \<Rightarrow> meta = [] \<or> (\<exists>m. kucoin_multiplier rt meta = Inr m \<and> m \<le> 0))
          \<longrightarrow> fst (kucoin_base_to_contracts rt env symbol q w) = Inr \<lfloor>q\<rfloor>)
       \<and> ((case fst (gate_get_contract env contract w) of
             Inl e \<Rightarrow> True
           | Inr meta \<Rightarrow> meta = [] \<or> gate_multiplier rt meta \<le> 0)
          \<longrightarrow> fst (gate_base_to_contracts rt env contract q w) = Inr \<lfloor>q\<rfloor>)"
proof -
  note d = dec_div_one_float [OF assms]
  have f: "dec_to_int_down q = \<lfloor>q\<rfloor>" using assms(1) by (simp add: dec_to_int_down_pos)
  have k: "fst (kucoin_base_to_contracts rt env symbol q w) = Inr \<lfloor>q\<rfloor>"
    if "case fst (kucoin_get_contract rt env (to_kucoin_futures_symbol env symbol) w) of
             Inl e \<Rightarrow> True
           | Inr meta \<Rightarrow> meta = [] \<or> (\<exists>m. kucoin_multiplier rt meta = Inr m \<and> m \<le> 0)"
  proof -
    from that obtain m where
      "kucoin_multiplier rt
         (meta_of (fst (kucoin_get_contract rt env (to_kucoin_futures_symbol env symbol) w))) = Inr m"
      "m \<le> 0"
      by (auto simp: meta_of_def kucoin_multiplier_empty split: sum.splits)
    then show ?thesis by (simp add: kucoin_count [OF assms(1)] d f)
  qed
  have g: "fst (gate_base_to_contracts rt env contract q w) = Inr \<lfloor>q\<rfloor>"
    if "case fst (gate_get_contract env contract w) of
             Inl e \<Rightarrow> True
           | Inr meta \<Rightarrow> meta = [] \<or> gate_multiplier rt meta \<le> 0"
  proof -
    from that have "gate_multiplier rt (meta_of (fst (gate_get_contract env contract w))) \<le> 0"
      by (auto simp: meta_of_def gate_multiplier_empty split: sum.splits)
    then show ?thesis by (simp add: gate_count [OF assms(1)] d f)
  qed
  show ?thesis using k g by blast
qed

theorem C10_missing_metadata_witness:
  "fst (kucoin_base_to_contracts sample_runtime failing_env ''XBTUSDTM'' (5 / 2) world0) = Inr 2
   \<and> fst (kucoin_base_to_contracts sample_runtime (sample_env (kucoin_contracts (JInt 0)) 0)
          ''XBTUSDTM'' (5 / 2) world0) = Inr 2
   \<and> fst (gate_base_to_contracts sample_runtime failing_env ''BTC_USDT'' (5 / 2) world0) = Inr 2
   \<and> fst (gate_base_to_contracts sample_runtime (sample_env (gate_contract (JStr ''-1'')) 0)
          ''BTC_USDT'' (5 / 2) world0) = Inr 2"
proof -
  have p: "(0::rat) < 5 / 2" by simp
  have fl: "\<lfloor>5 / 2 :: rat\<rfloor> = 2" by (simp add: floor_eq_iff)
  have k1: "fst (kucoin_get_contract sample_runtime failing_env
              (to_kucoin_futures_symbol failing_env ''XBTUSDTM'') world0) = Inl OtherException"
    by code_simp
  have k2: "fst (kucoin_get_contract sample_runtime (sample_env (kucoin_contracts (JInt 0)) 0)
              (to_kucoin_futures_symbol (sample_env (kucoin_contracts (JInt 0)) 0) ''XBTUSDTM'')
              world0) = Inr [(''symbol'', JStr ''XBTUSDTM''), (''multiplier'', JInt 0)]"
    by code_simp
  have k2m: "kucoin_multiplier sample_runtime
               [(''symbol'', JStr ''XBTUSDTM''), (''multiplier'', JInt 0)] = Inr 0"
    by code_simp
  have g1: "fst (gate_get_contract failing_env ''BTC_USDT'' world0) = Inl OtherException"
    by code_simp
  have g2: "fst (gate_get_contract (sample_env (gate_contract (JStr ''-1'')) 0) ''BTC_USDT'' world0)
            = Inr [(''name'', JStr ''BTC_USDT''), (''quanto_multiplier'', JStr ''-1'')]"
    by code_simp
  have g2m: "gate_multiplier sample_runtime
               [(''name'', JStr ''BTC_USDT''), (''quanto_multiplier'', JStr ''-1'')] = - 1"
    by code_simp
  note t = C10_missing_metadata_multiplier_one [OF p float_value_5_2, where rt = sample_runtime]
  from t [where env = failing_env and symbol = "''XBTUSDTM''" and w = world0] k1
  have a: "fst (kucoin_base_to_contracts sample_runtime failing_env ''XBTUSDTM'' (5 / 2) world0)
           = Inr 2"
    by (simp add: fl)
  from t [where env = "sample_env (kucoin_contracts (JInt 0)) 0" and symbol = "''XBTUSDTM''"
      and w = world0] k2 k2m
  have b: "fst (kucoin_base_to_contracts sample_runtime (sample_env (kucoin_contracts (JInt 0)) 0)
          ''XBTUSDTM'' (5 / 2) world0) = Inr 2"
    by (simp add: fl)
  from t [where env = failing_env and contract = "''BTC_USDT''" and w = world0] g1
  have c: "fst (gate_base_to_contracts sample_runtime failing_env ''BTC_USDT'' (5 / 2) world0)
           = Inr 2"
    by (simp add: fl)
  from t [where env = "sample_env (gate_contract (JStr ''-1'')) 0" and contract = "''BTC_USDT''"
      and w = world0] g2 g2m
  have d: "fst (gate_base_to_contracts sample_runtime (sample_env (gate_contract (JStr ''-1'')) 0)
          ''BTC_USDT'' (5 / 2) world0) = Inr 2"
    by (simp add: fl)
  show ?thesis using a b c d by simp
qed

subsection \<open>A non-positive contract count is rejected\<close>

text \<open>The metadata fetch is a \<open>GET\<close>: it adds no order submission.\<close>

lemma order_posts_get:
  "order_posts (snd (public_request env name ''GET'' path params w)) = order_posts w"
  by (simp add: public_request_def http_request_def order_posts_def Let_def)

lemma order_posts_cache_put: "order_posts (cache_put k now obj w) = order_posts w"
  by (simp add: cache_put_def order_posts_def)

lemma order_posts_getD:
  "public_request env name ''GET'' path params w = (r, w1) \<Longrightarrow> order_posts w1 = order_posts w"
  using order_posts_get [of env name path params w] by simp

lemma order_posts_kucoin_get_contract:
  "order_posts (snd (kucoin_get_contract rt env s w)) = order_posts w"
  by (auto simp: kucoin_get_contract_def Let_def order_posts_cache_put
      split: option.splits sum.splits prod.splits dest: order_posts_getD)

lemma order_posts_gate_get_contract:
  "order_posts (snd (gate_get_contract env c w)) = order_posts w"
  by (auto simp: gate_get_contract_def Let_def order_posts_cache_put
      split: option.splits sum.splits prod.splits dest: order_posts_getD)

lemma order_posts_kucoin_base_to_contracts:
  "order_posts (snd (kucoin_base_to_contracts rt env s q w)) = order_posts w"
proof -
  obtain r w1 where p: "kucoin_get_contract rt env (to_kucoin_futures_symbol env s) w = (r, w1)"
    by force
  have "order_posts w1 = order_posts w" using order_posts_kucoin_get_contract [of rt env _ w] p
    by (metis snd_conv)
  then show ?thesis
    by (simp add: kucoin_base_to_contracts_def Let_def p split: sum.splits)
qed

lemma order_posts_gate_base_to_contracts:
  "order_posts (snd (gate_base_to_contracts rt env c q w)) = order_posts w"
proof -
  obtain r w1 where p: "gate_get_contract env c w = (r, w1)" by force
  have "order_posts w1 = order_posts w" using order_posts_gate_get_contract [of env _ w] p
    by (metis snd_conv)
  then show ?thesis
    by (simp add: gate_base_to_contracts_def Let_def p split: sum.splits)
qed

lemma kucoin_market_rejects:
  assumes "fst (kucoin_base_to_contracts rt env (to_kucoin_futures_symbol env symbol) sz w) = Inr n"
    and "n \<le> 0"
  shows "is_error (fst (kucoin_place_market_order rt env symbol side sz ro coid w))
       \<and> order_posts (snd (kucoin_place_market_order rt env symbol side sz ro coid w))
         = order_posts w"
proof -
  obtain r w1 where p: "kucoin_base_to_contracts rt env (to_kucoin_futures_symbol env symbol) sz w
      = (r, w1)" by force
  have o: "order_posts w1 = order_posts w"
    using order_posts_kucoin_base_to_contracts [of rt env _ sz w] p by (metis snd_conv)
  have r: "r = Inr n" using assms(1) p by simp
  show ?thesis using o r assms(2)
    by (simp add: kucoin_place_market_order_def Let_def p is_error_def)
qed

lemma kucoin_limit_rejects:
  assumes "fst (kucoin_base_to_contracts rt env (to_kucoin_futures_symbol env symbol) sz w) = Inr n"
    and "n \<le> 0"
  shows "is_error (fst (kucoin_place_limit_order rt env symbol side sz price ro po coid w))
       \<and> order_posts (snd (kucoin_place_limit_order rt env symbol side sz price ro po coid w))
         = order_posts w"
proof -
  obtain r w1 where p: "kucoin_base_to_contracts rt env (to_kucoin_futures_symbol env symbol) sz w
      = (r, w1)" by force
  have o: "order_posts w1 = order_posts w"
    using order_posts_kucoin_base_to_contracts [of rt env _ sz w] p by (metis snd_conv)
  have r: "r = Inr n" using assms(1) p by simp
  show ?thesis using o r assms(2)
    by (simp add: kucoin_place_limit_order_def Let_def p is_error_def)
qed

lemma gate_market_rejects:
  assumes "fst (gate_base_to_contracts rt env (to_gate_currency_pair env symbol) sz w) = Inr n"
    and "n \<le> 0"
  shows "is_error (fst (gate_place_market_order rt env symbol side sz ro coid w))
       \<and> order_posts (snd (gate_place_market_order rt env symbol side sz ro coid w))
         = order_posts w"
proof -
  obtain r w1 where p: "gate_base_to_contracts rt env (to_gate_currency_pair env symbol) sz w
      = (r, w1)" by force
  have o: "order_posts w1 = order_posts w"
    using order_posts_gate_base_to_contracts [of rt env _ sz w] p by (metis snd_conv)
  have r: "r = Inr n" using assms(1) p by simp
  show ?thesis using o r assms(2)
    by (simp add: gate_place_market_order_def Let_def p is_error_def)
qed

lemma gate_limit_rejects:
  assumes "fst (gate_base_to_contracts rt env (to_gate_currency_pair env symbol) sz w) = Inr n"
    and "n \<le> 0"
  shows "is_error (fst (gate_place_limit_order rt env symbol side sz price ro coid w))
       \<and> order_posts (snd (gate_place_limit_order rt env symbol side sz price ro coid w))
         = order_posts w"
proof -
  obtain r w1 where p: "gate_base_to_contracts rt env (to_gate_currency_pair env symbol) sz w
      = (r, w1)" by force
  have o: "order_posts w1 = order_posts w"
    using order_posts_gate_base_to_contracts [of rt env _ sz w] p by (metis snd_conv)
  have r: "r = Inr n" using assms(1) p by simp
  show ?thesis using o r assms(2)
    by (simp add: gate_place_limit_order_def Let_def p is_error_def)
qed

lemma count_of_nonpositive_size:
  assumes "sz \<le> 0"
  shows "fst (kucoin_base_to_contracts rt env s sz w) = Inr 0"
    and "fst (gate_base_to_contracts rt env c sz w) = Inr 0"
  using assms by (simp_all add: kucoin_base_to_contracts_def gate_base_to_contracts_def)

lemma count_below_multiplier:
  assumes "0 < q" and "q < m" and "exact_in_context (q / m)"
  shows "dec_div q m = Inr (q / m)" and "dec_to_int_down (q / m) = 0"
proof -
  show "dec_div q m = Inr (q / m)" using assms by (intro dec_div_exact) simp_all
  have "0 \<le> q / m" "q / m < 1" using assms by simp_all
  then show "dec_to_int_down (q / m) = 0" by (simp add: dec_to_int_down_def floor_eq_iff)
qed

lemma exact_half: "exact_in_context (1 / 2)"
proof -
  have "(1 / 2 :: rat) = of_int 5 * 10 powi (- 1)" by (simp add: power_int_minus)
  moreover have "adjusted (1 / 2) \<le> Emax" by code_simp
  ultimately show ?thesis unfolding exact_in_context_def Etiny_def
    by (intro exI [of _ 5] exI [of _ "- 1"]) simp
qed

text \<open>
  C6. For \<open>KucoinFuturesClient\<close> and \<open>GateUsdtFuturesClient\<close>, whenever the contract
  count that \<open>_base_to_contracts\<close> computes for the order is zero or negative,
  \<open>place_market_order\<close> and \<open>place_limit_order\<close> raise \<open>LiveTradingError\<close> and
  send no order submission: the \<open>POST\<close> requests sent are those sent before the call.
  The count is zero for a non-positive base size, and for a positive base size below
  the multiplier (with a quotient the decimal context holds exactly).
\<close>

theorem C6_nonpositive_count_rejected:
  "(fst (kucoin_base_to_contracts rt env (to_kucoin_futures_symbol env symbol) sz w) = Inr n
      \<and> n \<le> 0
    \<longrightarrow> is_error (fst (kucoin_place_market_order rt env symbol side sz ro coid w))
        \<and> order_posts (snd (kucoin_place_market_order rt env symbol side sz ro coid w))
          = order_posts w
        \<and> is_error (fst (kucoin_place_limit_order rt env symbol side sz price ro po coid w))
        \<and> order_posts (snd (kucoin_place_limit_order rt env symbol side sz price ro po coid w))
          = order_posts w)
   \<and> (fst (gate_base_to_contracts rt env (to_gate_currency_pair env symbol) sz w) = Inr n
      \<and> n \<le> 0
    \<longrightarrow> is_error (fst (gate_place_market_order rt env symbol side sz ro coid w))
        \<and> order_posts (snd (gate_place_market_order rt env symbol side sz ro coid w))
          = order_posts w
        \<and> is_error (fst (gate_place_limit_order rt env symbol side sz price ro coid w))
        \<and> order_posts (snd (gate_place_limit_order rt env symbol side sz price ro coid w))
          = order_posts w)
   \<and> (sz \<le> 0
    \<longrightarrow> fst (kucoin_base_to_contracts rt env s sz w) = Inr 0
        \<and> fst (gate_base_to_contracts rt env c sz w) = Inr 0)
   \<and> (0 < sz \<and> sz < m \<and> exact_in_context (sz / m)
      \<and> fst (kucoin_get_contract rt env (to_kucoin_futures_symbol env s) w) = Inr meta
      \<and> kucoin_multiplier rt meta = Inr m
    \<longrightarrow> fst (kucoin_base_to_contracts rt env s sz w) = Inr 0)
   \<and> (0 < sz \<and> sz < m \<and> exact_in_context (sz / m)
      \<and> fst (gate_get_contract env c w) = Inr gmeta \<and> gate_multiplier rt gmeta = m
    \<longrightarrow> fst (gate_base_to_contracts rt env c sz w) = Inr 0)"
proof (intro conjI impI)
  assume "sz \<le> 0"
  then show "fst (kucoin_base_to_contracts rt env s sz w) = Inr 0"
    and "fst (gate_base_to_contracts rt env c sz w) = Inr 0"
    by (rule count_of_nonpositive_size)+
next
  assume a: "0 < sz \<and> sz < m \<and> exact_in_context (sz / m)
      \<and> fst (kucoin_get_contract rt env (to_kucoin_futures_symbol env s) w) = Inr meta
      \<and> kucoin_multiplier rt meta = Inr m"
  then have "0 < sz" "sz < m" "exact_in_context (sz / m)" by simp_all
  from count_below_multiplier [OF this] a
  show "fst (kucoin_base_to_contracts rt env s sz w) = Inr 0"
    by (simp add: kucoin_count meta_of_def)
next
  assume a: "0 < sz \<and> sz < m \<and> exact_in_context (sz / m)
      \<and> fst (gate_get_contract env c w) = Inr gmeta \<and> gate_multiplier rt gmeta = m"
  then have "0 < sz" "sz < m" "exact_in_context (sz / m)" by simp_all
  from count_below_multiplier [OF this] a
  show "fst (gate_base_to_contracts rt env c sz w) = Inr 0"
    by (simp add: gate_count meta_of_def)
qed (simp_all add: kucoin_market_rejects kucoin_limit_rejects gate_market_rejects
      gate_limit_rejects)

theorem C6_nonpositive_count_witness:
  "is_error (fst (kucoin_place_market_order sample_runtime
        (sample_env (kucoin_contracts (JStr ''0.001'')) 0) ''XBTUSDTM'' ''buy'' (1 / 2000) False None
        world0))
   \<and> order_posts (snd (kucoin_place_limit_order sample_runtime
        (sample_env (kucoin_contracts (JStr ''0.001'')) 0) ''XBTUSDTM'' ''buy'' (1 / 2000) 100 False
        False None world0)) = []
   \<and> is_error (fst (gate_place_limit_order sample_runtime
        (sample_env (gate_contract (JStr ''0.001'')) 0) ''BTC_USDT'' ''sell'' (1 / 2000) 100 False None
        world0))
   \<and> order_posts (snd (gate_place_market_order sample_runtime
        (sample_env (gate_contract (JStr ''0.001'')) 0) ''BTC_USDT'' ''sell'' (1 / 2000) False None
        world0)) = []
   \<and> fst (kucoin_base_to_contracts sample_runtime failing_env ''XBTUSDTM'' (- 1) world0) = Inr 0"
proof -
  have k: "fst (kucoin_base_to_contracts sample_runtime
             (sample_env (kucoin_contracts (JStr ''0.001'')) 0)
             (to_kucoin_futures_symbol (sample_env (kucoin_contracts (JStr ''0.001'')) 0) ''XBTUSDTM'')
             (1 / 2000) world0) = Inr 0"
    by code_simp
  have g: "fst (gate_base_to_contracts sample_runtime
             (sample_env (gate_contract (JStr ''0.001'')) 0)
             (to_gate_currency_pair (sample_env (gate_contract (JStr ''0.001'')) 0) ''BTC_USDT'')
             (1 / 2000) world0) = Inr 0"
    by code_simp
  have o: "order_posts world0 = []" by code_simp
  note a = C6_nonpositive_count_rejected [where rt = sample_runtime
      and env = "sample_env (kucoin_contracts (JStr ''0.001'')) 0" and symbol = "''XBTUSDTM''"
      and sz = "1 / 2000" and w = world0 and n = 0 and side = "''buy''" and ro = False
      and coid = None and price = 100 and po = False]
  note b = C6_nonpositive_count_rejected [where rt = sample_runtime
      and env = "sample_env (gate_contract (JStr ''0.001'')) 0" and symbol = "''BTC_USDT''"
      and sz = "1 / 2000" and w = world0 and n = 0 and side = "''sell''" and ro = False
      and coid = None and price = 100]
  note c = C6_nonpositive_count_rejected [where rt = sample_runtime and env = failing_env
      and s = "''XBTUSDTM''" and sz = "- 1" and w = world0]
  have c': "fst (kucoin_base_to_contracts sample_runtime failing_env ''XBTUSDTM'' (- 1) world0)
            = Inr 0"
    using c by simp
  show ?thesis using a b c' k g o by simp
qed

subsection \<open>The Gate signature\<close>

lemma hex_digit_table: "n < 16 \<Longrightarrow> hex_digit n = ''0123456789abcdef'' ! n"
proof -
  assume n: "n < 16"
  have "list_all (\<lambda>k. hex_digit k = ''0123456789abcdef'' ! k) [0..<16]"
    by code_simp
  then have "\<forall>k\<in>set [0..<16]. hex_digit k = ''0123456789abcdef'' ! k"
    by (simp only: list_all_iff)
  moreover have "n \<in> set [0..<16]" using n by simp
  ultimately show ?thesis by blast
qed

lemma hexlify_length: "length (hexlify bs) = 2 * length bs"
  by (induction bs) (simp_all add: hexlify_def)

lemma hexlify_nth:
  "i < length bs \<Longrightarrow>
     hexlify bs ! (2 * i) = hex_digit (of_char (bs ! i) div 16)
     \<and> hexlify bs ! (2 * i + 1) = hex_digit (of_char (bs ! i) mod 16)"
proof (induction bs arbitrary: i)
  case Nil
  then show ?case by simp
next
  case (Cons b bs)
  have c: "hexlify (b # bs)
             = hex_digit (of_char b div 16) # hex_digit (of_char b mod 16) # hexlify bs"
    by (simp add: hexlify_def)
  show ?case
  proof (cases i)
    case 0
    then show ?thesis by (simp add: c)
  next
    case (Suc j)
    then have "j < length bs" using Cons.prems by simp
    from Cons.IH [OF this] show ?thesis using Suc by (simp add: c)
  qed
qed

lemma byte_nibbles: "(of_char (b :: char) :: nat) div 16 < 16 \<and> (of_char b :: nat) mod 16 < 16"
proof -
  have "(of_char b :: nat) < 256" by simp
  then show ?thesis by (simp add: less_mult_imp_div_less)
qed

lemma encode_utf8_ascii: "list_all (\<lambda>c. (of_char c :: nat) < 128) s \<Longrightarrow> encode_utf8 s = s"
  by (induction s) (simp_all add: encode_utf8_def utf8_char_def)

text \<open>
  Claim C7. For every secret, method, url, query string, body and timestamp, \<open>_sign\<close>
  returns the hexadecimal encoding of the HMAC-SHA512, keyed by the UTF-8 encoding of
  the secret, of the UTF-8 encoding of the string made of \<open>method.upper()\<close>, \<open>url\<close>,
  \<open>query_string\<close>, \<open>body_str\<close> and \<open>ts\<close> in this order, separated by single line feeds
  (character 10). The output has two characters for every byte of the digest, the digits
  of the byte in base 16 from \<open>0123456789abcdef\<close>, high digit first. The UTF-8 encoding
  of a string of characters below 128 is the string itself. The result depends on the
  arguments and the secret only, so equal inputs give the same output.
\<close>

theorem C7_gate_sign_hmac:
  "gate_sign hmac secret verb url query_string body_str ts
     = hexlify (hmac (encode_utf8 secret)
         (encode_utf8 (py_upper verb @ [CHR 0x0A] @ url @ [CHR 0x0A] @ query_string
            @ [CHR 0x0A] @ body_str @ [CHR 0x0A] @ ts)))
   \<and> length (hexlify digest) = 2 * length digest
   \<and> (i < length digest \<longrightarrow>
        hexlify digest ! (2 * i) = ''0123456789abcdef'' ! (of_char (digest ! i) div 16)
        \<and> hexlify digest ! (2 * i + 1) = ''0123456789abcdef'' ! (of_char (digest ! i) mod 16))
   \<and> (list_all (\<lambda>c. (of_char c :: nat) < 128) s \<longrightarrow> encode_utf8 s = s)
   \<and> (secret = secret' \<and> verb = verb' \<and> url = url' \<and> query_string = query_string'
        \<and> body_str = body_str' \<and> ts = ts'
      \<longrightarrow> gate_sign hmac secret verb url query_string body_str ts
          = gate_sign hmac secret' verb' url' query_string' body_str' ts')"
proof -
  have nl: "newline = [CHR 0x0A]"
    by code_simp
  have a: "gate_sign hmac secret verb url query_string body_str ts
     = hexlify (hmac (encode_utf8 secret)
         (encode_utf8 (py_upper verb @ [CHR 0x0A] @ url @ [CHR 0x0A] @ query_string
            @ [CHR 0x0A] @ body_str @ [CHR 0x0A] @ ts)))"
    by (simp add: gate_sign_def Let_def nl)
  have b: "i < length digest \<longrightarrow>
        hexlify digest ! (2 * i) = ''0123456789abcdef'' ! (of_char (digest ! i) div 16)
        \<and> hexlify digest ! (2 * i + 1) = ''0123456789abcdef'' ! (of_char (digest ! i) mod 16)"
    using hexlify_nth [of i digest] byte_nibbles [of "digest ! i"]
    by (simp only: hex_digit_table) blast
  show ?thesis
    using a b hexlify_length [of digest] encode_utf8_ascii [of s] by blast
qed

theorem C7_gate_sign_witness:
  "gate_sign sample_digest ''key'' ''get'' ''/api/v4/spot/time'' ''a=1'' ''{}'' ''1700000000''
     = ''6b65797c4745540a2f6170692f76342f73706f742f74696d650a613d310a7b7d0a31373030303030303030''
   \<and> hexlify ''key'' ! 2 = CHR ''6'' \<and> hexlify ''key'' ! 3 = CHR ''5''
   \<and> encode_utf8 ''key'' = ''key''
   \<and> gate_sign sample_digest [CHR ''k'', CHR 0xE9] ''post'' ''/p'' [] [] ''1''
     = ''6bc3a97c504f53540a2f700a0a0a31''"
proof -
  have a: "hexlify (sample_digest (encode_utf8 ''key'')
         (encode_utf8 (py_upper ''get'' @ [CHR 0x0A] @ ''/api/v4/spot/time'' @ [CHR 0x0A] @ ''a=1''
            @ [CHR 0x0A] @ ''{}'' @ [CHR 0x0A] @ ''1700000000'')))
       = ''6b65797c4745540a2f6170692f76342f73706f742f74696d650a613d310a7b7d0a31373030303030303030''"
    by code_simp
  have b: "hexlify (sample_digest (encode_utf8 [CHR ''k'', CHR 0xE9])
         (encode_utf8 (py_upper ''post'' @ [CHR 0x0A] @ ''/p'' @ [CHR 0x0A] @ []
            @ [CHR 0x0A] @ [] @ [CHR 0x0A] @ ''1'')))
       = ''6bc3a97c504f53540a2f700a0a0a31''"
    by code_simp
  have c: "(1::nat) < length ''key''" "list_all (\<lambda>c. (of_char c :: nat) < 128) ''key''"
    "''0123456789abcdef'' ! (of_char (''key'' ! 1) div 16) = CHR ''6''"
    "''0123456789abcdef'' ! (of_char (''key'' ! 1) mod 16) = CHR ''5''"
    by simp_all
  note t1 = C7_gate_sign_hmac [where hmac = sample_digest and secret = "''key''"
      and verb = "''get''" and url = "''/api/v4/spot/time''" and query_string = "''a=1''"
      and body_str = "''{}''" and ts = "''1700000000''" and digest = "''key''" and i = 1
      and s = "''key''"]
  note t2 = C7_gate_sign_hmac [where hmac = sample_digest
      and secret = "[CHR ''k'', CHR 0xE9]" and verb = "''post''" and url = "''/p''"
      and query_string = "[]" and body_str = "[]" and ts = "''1''"]
  have d: "gate_sign sample_digest ''key'' ''get'' ''/api/v4/spot/time'' ''a=1'' ''{}''
             ''1700000000''
     = ''6b65797c4745540a2f6170692f76342f73706f742f74696d650a613d310a7b7d0a31373030303030303030''"
    using t1 a by (simp only:)
  have e: "hexlify ''key'' ! 2 = CHR ''6'' \<and> hexlify ''key'' ! 3 = CHR ''5''"
    using t1 c by simp
  have f: "encode_utf8 ''key'' = ''key''"
    using t1 c(2) by blast
  have g: "gate_sign sample_digest [CHR ''k'', CHR 0xE9] ''post'' ''/p'' [] [] ''1''
     = ''6bc3a97c504f53540a2f700a0a0a31''"
    using t2 b by (simp only:)
  from d e f g show ?thesis by (intro conjI) simp_all
qed

subsection \<open>The order placement of the Bitfinex derivatives client\<close>






lemma new_requests_same: "new_requests w w = []"
  by (simp add: new_requests_def)

lemma bitfinex_submit_requests:
  "new_requests w (snd (bitfinex_submit rt env body w))
     = [\<lparr>req_method = ''POST'', req_path = ''/v2/auth/w/order/submit'', req_params = None,
         req_body = Some (JObj body), req_signed = True\<rparr>]"
proof -
  have u: "py_upper ''POST'' = ''POST''" by code_simp
  show ?thesis
    by (simp add: bitfinex_submit_def signed_request_def http_request_def new_requests_def
        Let_def u split: sum.splits prod.splits)
qed

lemma exchange_market_requests:
  "list_all (\<lambda>rq. body_field rq ''type'' = JStr ''EXCHANGE MARKET''
               \<and> body_field rq ''symbol'' = JStr (to_bitfinex_spot_symbol env symbol))
     (new_requests w (snd (exchange_place_market_order rt env symbol side sz coid w)))"
  by (simp add: exchange_place_market_order_def Let_def new_requests_same
      bitfinex_submit_requests body_field_def jget_def)

lemma exchange_limit_requests:
  "list_all (\<lambda>rq. body_field rq ''type'' = JStr ''EXCHANGE LIMIT''
               \<and> body_field rq ''symbol'' = JStr (to_bitfinex_spot_symbol env symbol))
     (new_requests w (snd (exchange_place_limit_order rt env symbol side sz price coid w)))"
  by (simp add: exchange_place_limit_order_def Let_def new_requests_same
      bitfinex_submit_requests body_field_def jget_def)









subsection \<open>Configuration errors at construction\<close>

lemma a2b_no_pad:
  "CHR ''='' \<notin> set s \<Longrightarrow> q < 4 \<Longrightarrow>
     isl (a2b_base64 q l p out s) = ((q + length (filter b64_alphabet s)) mod 4 \<noteq> 0)"
proof (induction s arbitrary: q l p out)
  case Nil
  then show ?case by simp
next
  case (Cons c cs)
  then have c: "c \<noteq> CHR ''=''" and cs: "CHR ''='' \<notin> set cs" by auto
  show ?case
  proof (cases "b64_index c")
    case None
    then show ?thesis using Cons.IH [OF cs Cons.prems(2)] c by (simp add: b64_alphabet_def)
  next
    case (Some v)
    consider "q = 0" | "q = 1" | "q = 2" | "q = 3" using Cons.prems(2) by linarith
    then show ?thesis
    proof cases
      case 1
      then show ?thesis using Cons.IH [OF cs, of 1] Some c by (simp add: b64_alphabet_def)
    next
      case 2
      then show ?thesis using Cons.IH [OF cs, of 2] Some c by (simp add: b64_alphabet_def)
    next
      case 3
      then show ?thesis using Cons.IH [OF cs, of 3] Some c by (simp add: b64_alphabet_def)
    next
      case 4
      then show ?thesis using Cons.IH [OF cs, of 0] Some c
        by (simp add: b64_alphabet_def)
    qed
  qed
qed

lemma b64decode_no_pad:
  "CHR ''='' \<notin> set s \<Longrightarrow>
     isl (b64decode s) = (list_ex non_ascii s \<or> length (filter b64_alphabet s) mod 4 \<noteq> 0)"
  using a2b_no_pad [of s 0 0 0 "[]"] by (simp add: b64decode_def)

lemma create_client_unsupported:
  assumes "is_dict config" and "factory_market_type market_type (items config) = Inr mt"
    and "config_exchange_id rt config \<notin> set supported_exchange_ids"
  shows "create_client rt ext config market_type
           = Inl (LiveTradingError (''Unsupported exchange_id: '' @ config_exchange_id rt config))"
  using assms
  by (simp add: create_client_def config_exchange_id_def supported_exchange_ids_def Let_def)

lemma create_client_coinbase_not_spot:
  assumes "is_dict config" and "factory_market_type market_type (items config) = Inr mt"
    and "config_exchange_id rt config \<in> set [''coinbaseexchange'', ''coinbase_exchange'']"
    and "mt \<noteq> ''spot''"
  shows "create_client rt ext config market_type
           = Inl (LiveTradingError
                    ''CoinbaseExchange only supports spot market_type in this project'')"
  using assms
  by (auto simp add: create_client_def config_exchange_id_def Let_def)

lemma py_strip_Nil: "py_strip [] = []"
  by (simp add: py_strip_def)

lemma is_error_LiveTradingError: "is_error (Inl (LiveTradingError m))"
  by (simp add: is_error_def)

lemma two_credentials_missing:
  assumes "py_strip (or_empty ak) = [] \<or> py_strip (or_empty sk) = []"
  shows "kraken_client_init ak sk url = Inl (LiveTradingError ''Missing Kraken api_key/secret_key'')"
    and "kraken_futures_client_init ak sk url
           = Inl (LiveTradingError ''Missing KrakenFutures api_key/secret_key'')"
    and "gate_client_init cls ak sk url = Inl (LiveTradingError ''Missing Gate api_key/secret_key'')"
    and "bitfinex_client_init cls ak sk url
           = Inl (LiveTradingError ''Missing Bitfinex api_key/secret_key'')"
  using assms
  by (auto simp add: kraken_client_init_def kraken_futures_client_init_def gate_client_init_def
        bitfinex_client_init_def Let_def)

lemma three_credentials_missing:
  assumes "py_strip (or_empty ak) = [] \<or> py_strip (or_empty sk) = []
             \<or> py_strip (or_empty pp) = []"
  shows "coinbase_client_init ak sk pp url
           = Inl (LiveTradingError ''Missing CoinbaseExchange api_key/secret_key/passphrase'')"
    and "kucoin_spot_client_init ak sk pp url
           = Inl (LiveTradingError ''Missing KuCoin api_key/secret_key/passphrase'')"
    and "kucoin_futures_client_init ak sk pp url
           = Inl (LiveTradingError ''Missing KuCoin Futures api_key/secret_key/passphrase'')"
  using assms
  by (auto simp add: coinbase_client_init_def kucoin_spot_client_init_def
        kucoin_futures_client_init_def Let_def)

lemma create_client_missing_key:
  assumes "is_dict config" and "factory_market_type market_type (items config) = Inr mt"
    and "config_exchange_id rt config
           \<in> set [''coinbaseexchange'', ''coinbase_exchange'', ''kraken'', ''kucoin'', ''gate'',
                  ''bitfinex'']"
    and "factory_get rt (items config) [''api_key'', ''apiKey''] = []
           \<or> factory_get rt (items config) [''secret_key'', ''secret''] = []"
  shows "is_error (create_client rt ext config market_type)"
proof -
  let ?ak = "Some (factory_get rt (items config) [''api_key'', ''apiKey''])"
  let ?sk = "Some (factory_get rt (items config) [''secret_key'', ''secret''])"
  have m: "py_strip (or_empty ?ak) = [] \<or> py_strip (or_empty ?sk) = []"
    using assms(4) by (auto simp add: or_empty_def py_strip_Nil)
  then have m3: "\<And>pp. py_strip (or_empty ?ak) = [] \<or> py_strip (or_empty ?sk) = []
                        \<or> py_strip (or_empty pp) = []"
    by blast
  show ?thesis
    using assms(1-3)
    by (auto simp add: create_client_def config_exchange_id_def Let_def
          two_credentials_missing [OF m] three_credentials_missing [OF m3]
          is_error_LiveTradingError)
qed

lemma create_client_missing_passphrase:
  assumes "is_dict config" and "factory_market_type market_type (items config) = Inr mt"
    and "config_exchange_id rt config \<in> set [''coinbaseexchange'', ''coinbase_exchange'', ''kucoin'']"
    and "factory_get rt (items config) [''passphrase'', ''password''] = []"
  shows "is_error (create_client rt ext config market_type)"
proof -
  let ?pp = "Some (factory_get rt (items config) [''passphrase'', ''password''])"
  have m3: "\<And>ak sk. py_strip (or_empty ak) = [] \<or> py_strip (or_empty sk) = []
                        \<or> py_strip (or_empty ?pp) = []"
    using assms(4) by (simp add: or_empty_def py_strip_Nil)
  show ?thesis
    using assms(1-3)
    by (auto simp add: create_client_def config_exchange_id_def Let_def
          three_credentials_missing [OF m3] is_error_LiveTradingError)
qed

lemma decode_at_construction:
  assumes "py_strip (or_empty ak) \<noteq> []" and "py_strip (or_empty sk) \<noteq> []"
  shows "is_error (kraken_client_init ak sk url) = isl (b64decode (py_strip (or_empty sk)))"
    and "py_strip (or_empty pp) \<noteq> [] \<Longrightarrow>
           is_error (coinbase_client_init ak sk pp url) = isl (b64decode (py_strip (or_empty sk)))"
    and "kraken_client_init ak sk url = Inr c \<Longrightarrow>
           b64decode (c_secret_key c) = Inr bs \<Longrightarrow> c_secret_bytes c = Some bs"
    and "coinbase_client_init ak sk pp url = Inr c \<Longrightarrow>
           b64decode (c_secret_key c) = Inr bs \<Longrightarrow> c_secret_bytes c = Some bs"
  using assms
  by (auto simp add: kraken_client_init_def coinbase_client_init_def Let_def is_error_def
        split: sum.splits if_splits)

text \<open>
  What is raised at construction. For a configuration dictionary whose market type
  resolves to \<open>mt\<close> (a truthy market type of the configuration that is no string makes
  \<open>create_client\<close> raise \<open>AttributeError\<close> before it looks at the exchange):
  \<open>create_client\<close> raises \<open>LiveTradingError\<close> for every exchange identifier it has no
  branch for, and for Coinbase Exchange with a market type other than \<open>spot\<close>; for the
  exchanges whose clients are in the files at hand it raises \<open>LiveTradingError\<close> when
  the API key or the secret is missing, and for KuCoin and Coinbase Exchange when the
  passphrase is missing. Every constructor of those files raises \<open>LiveTradingError\<close>
  when a credential it requires is empty or blank. With credentials present, the
  constructors of \<open>KrakenClient\<close> and \<open>CoinbaseExchangeClient\<close> raise exactly when
  \<open>base64.b64decode\<close> rejects the stripped secret; a secret without \<open>=\<close> is rejected
  exactly when it has a character above 127 or the number of its base64 digits is not
  a multiple of four.
\<close>

lemma construction_errors_raised:
  assumes "is_dict config"
    and "factory_market_type market_type (items config) = Inr mt"
  shows
    "(config_exchange_id rt config \<notin> set supported_exchange_ids \<longrightarrow>
        create_client rt ext config market_type
          = Inl (LiveTradingError (''Unsupported exchange_id: '' @ config_exchange_id rt config)))
     \<and> (config_exchange_id rt config \<in> set [''coinbaseexchange'', ''coinbase_exchange'']
          \<and> mt \<noteq> ''spot'' \<longrightarrow>
        create_client rt ext config market_type
          = Inl (LiveTradingError
                   ''CoinbaseExchange only supports spot market_type in this project''))
     \<and> (config_exchange_id rt config
            \<in> set [''coinbaseexchange'', ''coinbase_exchange'', ''kraken'', ''kucoin'', ''gate'',
                   ''bitfinex'']
          \<and> (factory_get rt (items config) [''api_key'', ''apiKey''] = []
               \<or> factory_get rt (items config) [''secret_key'', ''secret''] = []) \<longrightarrow>
        is_error (create_client rt ext config market_type))
     \<and> (config_exchange_id rt config \<in> set [''coinbaseexchange'', ''coinbase_exchange'', ''kucoin'']
          \<and> factory_get rt (items config) [''passphrase'', ''password''] = [] \<longrightarrow>
        is_error (create_client rt ext config market_type))
     \<and> (py_strip (or_empty ak) = [] \<or> py_strip (or_empty sk) = [] \<longrightarrow>
          is_error (kraken_client_init ak sk url)
          \<and> is_error (kraken_futures_client_init ak sk url)
          \<and> is_error (gate_client_init cls ak sk url)
          \<and> is_error (bitfinex_client_init cls ak sk url))
     \<and> (py_strip (or_empty ak) = [] \<or> py_strip (or_empty sk) = []
          \<or> py_strip (or_empty pp) = [] \<longrightarrow>
          is_error (coinbase_client_init ak sk pp url)
          \<and> is_error (kucoin_spot_client_init ak sk pp url)
          \<and> is_error (kucoin_futures_client_init ak sk pp url))
     \<and> (py_strip (or_empty ak) \<noteq> [] \<and> py_strip (or_empty sk) \<noteq> [] \<longrightarrow>
          is_error (kraken_client_init ak sk url) = isl (b64decode (py_strip (or_empty sk)))
          \<and> (py_strip (or_empty pp) \<noteq> [] \<longrightarrow>
               is_error (coinbase_client_init ak sk pp url)
                 = isl (b64decode (py_strip (or_empty sk))))
          \<and> (kraken_client_init ak sk url = Inr c \<and> b64decode (c_secret_key c) = Inr bs \<longrightarrow>
               c_secret_bytes c = Some bs)
          \<and> (coinbase_client_init ak sk pp url = Inr c \<and> b64decode (c_secret_key c) = Inr bs \<longrightarrow>
               c_secret_bytes c = Some bs))
     \<and> (CHR ''='' \<notin> set s \<longrightarrow>
          isl (b64decode s)
            = (list_ex non_ascii s \<or> length (filter b64_alphabet s) mod 4 \<noteq> 0))"
proof -
  note a = assms
  have p1: "config_exchange_id rt config \<notin> set supported_exchange_ids \<longrightarrow>
        create_client rt ext config market_type
          = Inl (LiveTradingError (''Unsupported exchange_id: '' @ config_exchange_id rt config))"
    using create_client_unsupported [OF a] by blast
  have p2: "config_exchange_id rt config \<in> set [''coinbaseexchange'', ''coinbase_exchange'']
          \<and> mt \<noteq> ''spot'' \<longrightarrow>
        create_client rt ext config market_type
          = Inl (LiveTradingError
                   ''CoinbaseExchange only supports spot market_type in this project'')"
    using create_client_coinbase_not_spot [OF a] by blast
  have p3: "config_exchange_id rt config
            \<in> set [''coinbaseexchange'', ''coinbase_exchange'', ''kraken'', ''kucoin'', ''gate'',
                   ''bitfinex'']
          \<and> (factory_get rt (items config) [''api_key'', ''apiKey''] = []
               \<or> factory_get rt (items config) [''secret_key'', ''secret''] = []) \<longrightarrow>
        is_error (create_client rt ext config market_type)"
    using create_client_missing_key [OF a] by blast
  have p4: "config_exchange_id rt config \<in> set [''coinbaseexchange'', ''coinbase_exchange'', ''kucoin'']
          \<and> factory_get rt (items config) [''passphrase'', ''password''] = [] \<longrightarrow>
        is_error (create_client rt ext config market_type)"
    using create_client_missing_passphrase [OF a] by blast
  have p5: "py_strip (or_empty ak) = [] \<or> py_strip (or_empty sk) = [] \<longrightarrow>
          is_error (kraken_client_init ak sk url)
          \<and> is_error (kraken_futures_client_init ak sk url)
          \<and> is_error (gate_client_init cls ak sk url)
          \<and> is_error (bitfinex_client_init cls ak sk url)"
    by (simp add: two_credentials_missing is_error_LiveTradingError)
  have p6: "py_strip (or_empty ak) = [] \<or> py_strip (or_empty sk) = []
          \<or> py_strip (or_empty pp) = [] \<longrightarrow>
          is_error (coinbase_client_init ak sk pp url)
          \<and> is_error (kucoin_spot_client_init ak sk pp url)
          \<and> is_error (kucoin_futures_client_init ak sk pp url)"
    by (simp add: three_credentials_missing is_error_LiveTradingError)
  have p7: "py_strip (or_empty ak) \<noteq> [] \<and> py_strip (or_empty sk) \<noteq> [] \<longrightarrow>
          is_error (kraken_client_init ak sk url) = isl (b64decode (py_strip (or_empty sk)))
          \<and> (py_strip (or_empty pp) \<noteq> [] \<longrightarrow>
               is_error (coinbase_client_init ak sk pp url)
                 = isl (b64decode (py_strip (or_empty sk))))
          \<and> (kraken_client_init ak sk url = Inr c \<and> b64decode (c_secret_key c) = Inr bs \<longrightarrow>
               c_secret_bytes c = Some bs)
          \<and> (coinbase_client_init ak sk pp url = Inr c \<and> b64decode (c_secret_key c) = Inr bs \<longrightarrow>
               c_secret_bytes c = Some bs)"
    by (intro impI conjI; (elim conjE)?) (simp_all add: decode_at_construction)
  have p8: "CHR ''='' \<notin> set s \<longrightarrow>
          isl (b64decode s)
            = (list_ex non_ascii s \<or> length (filter b64_alphabet s) mod 4 \<noteq> 0)"
    using b64decode_no_pad [of s] by blast
  from p1 p2 p3 p4 p5 p6 p7 p8 show ?thesis by (intro conjI)
qed

text \<open>
  Claim C8 asks, among the configuration errors raised at construction, that
  \<open>KrakenClient\<close> and \<open>CoinbaseExchangeClient\<close> raise when the secret is not valid
  base64. Both constructors call \<open>base64.b64decode\<close> with its default arguments, which
  skips every character outside the base64 alphabet instead of rejecting it. The secret
  \<open>abcd!\<close> holds the character \<open>!\<close>, which is neither a base64 digit nor the pad
  \<open>=\<close>, and has five characters, so it is not base64; both constructors accept it and
  keep the three bytes \<open>69 b7 1d\<close> decoded from \<open>abcd\<close> as the key of every later
  signature.
\<close>

theorem C8_lenient_secret_accepted:
  "\<not> b64_alphabet (CHR ''!'') \<and> CHR ''!'' \<noteq> CHR ''='' \<and> CHR ''!'' \<in> set ''abcd!''
   \<and> kraken_client_init (Some ''key'') (Some ''abcd!'') ''https://api.kraken.com''
       = Inr \<lparr>c_class = KrakenClient, c_api_key = ''key'', c_secret_key = ''abcd!'',
              c_passphrase = [], c_base_url = ''https://api.kraken.com'',
              c_secret_bytes = Some [char_of (105::nat), char_of (183::nat), char_of (29::nat)]\<rparr>
   \<and> coinbase_client_init (Some ''key'') (Some ''abcd!'') (Some ''pw'')
         ''https://api.exchange.coinbase.com''
       = Inr \<lparr>c_class = CoinbaseExchangeClient, c_api_key = ''key'', c_secret_key = ''abcd!'',
              c_passphrase = ''pw'', c_base_url = ''https://api.exchange.coinbase.com'',
              c_secret_bytes = Some [char_of (105::nat), char_of (183::nat), char_of (29::nat)]\<rparr>
   \<and> create_client sample_runtime sample_externals
         (JObj [(''exchange_id'', JStr ''kraken''), (''api_key'', JStr ''key''),
                (''secret_key'', JStr ''abcd!'')]) (Some ''spot'')
       = Inr \<lparr>c_class = KrakenClient, c_api_key = ''key'', c_secret_key = ''abcd!'',
              c_passphrase = [], c_base_url = ''https://api.kraken.com'',
              c_secret_bytes = Some [char_of (105::nat), char_of (183::nat), char_of (29::nat)]\<rparr>"
  by code_simp

subsection \<open>Waiting for a fill\<close>

lemma poll_loop_returns:
  fixes step :: "dict \<Rightarrow> world \<Rightarrow> (error + fill_report) \<times> world"
  assumes S: "\<And>prev w. \<exists>r w1. step prev w = (Inr r, w1) \<and> clock w \<le> clock w1
                 \<and> clock w1 \<le> clock w + d \<and> sleeps w1 = sleeps w
                 \<and> length (net_log w1) \<le> length (net_log w) + 1"
    and p: "0 < pause"
  shows "\<exists>r w'. poll_loop step terminal end_ts pause prev w = Some (Inr r, w')
           \<and> clock w' \<le> max (clock w) (end_ts + pause) + d
           \<and> (end_ts \<le> clock w \<longrightarrow>
                sleeps w' = sleeps w \<and> length (net_log w') \<le> length (net_log w) + 1)"
proof (induction "nat \<lceil>(end_ts - clock w) / pause\<rceil>" arbitrary: w prev rule: less_induct)
  case less
  obtain r w1 where s: "step prev w = (Inr r, w1)" and c1: "clock w \<le> clock w1"
    and c2: "clock w1 \<le> clock w + d" and sl: "sleeps w1 = sleeps w"
    and nl: "length (net_log w1) \<le> length (net_log w) + 1"
    using S [of prev w] by blast
  show ?case
  proof (cases "(0 < fr_filled r \<and> 0 < fr_avg_price r) \<or> py_lower (fr_status r) \<in> set terminal
                 \<or> end_ts \<le> clock w1")
    case True
    then have "poll_loop step terminal end_ts pause prev w = Some (Inr r, w1)"
      by (subst poll_loop.simps) (auto simp add: s)
    moreover have "clock w1 \<le> max (clock w) (end_ts + pause) + d"
      using c2 by linarith
    ultimately show ?thesis using sl nl by blast
  next
    case False
    let ?w2 = "w1\<lparr>clock := clock w1 + pause, sleeps := sleeps w1 @ [pause]\<rparr>"
    have lt: "clock w1 < end_ts" using False by simp
    have u: "poll_loop step terminal end_ts pause prev w
               = poll_loop step terminal end_ts pause (fr_order r) ?w2"
      using False p by (subst poll_loop.simps) (auto simp add: s)
    let ?x = "(end_ts - clock w) / pause"
    have x: "0 < ?x" using lt c1 p by simp
    have "(end_ts - clock ?w2) / pause = (end_ts - clock w1) / pause - 1"
      using p by (simp add: field_simps)
    also have "\<dots> \<le> ?x - 1"
      using c1 p by (simp add: divide_right_mono)
    finally have "\<lceil>(end_ts - clock ?w2) / pause\<rceil> \<le> \<lceil>?x - 1\<rceil>"
      by (rule ceiling_mono)
    then have "\<lceil>(end_ts - clock ?w2) / pause\<rceil> \<le> \<lceil>?x\<rceil> - 1" by simp
    moreover have "0 < \<lceil>?x\<rceil>" using x by simp
    ultimately have m: "nat \<lceil>(end_ts - clock ?w2) / pause\<rceil> < nat \<lceil>?x\<rceil>" by linarith
    from less [OF m, of "fr_order r"] obtain r' w' where
      a: "poll_loop step terminal end_ts pause (fr_order r) ?w2 = Some (Inr r', w')"
      and b: "clock w' \<le> max (clock ?w2) (end_ts + pause) + d"
      by blast
    have "clock w' \<le> max (clock w) (end_ts + pause) + d"
      using b lt by (simp add: max_def split: if_splits)
    moreover have "\<not> end_ts \<le> clock w" using lt c1 by simp
    ultimately show ?thesis using a u by simp
  qed
qed

lemma poll_loop_terminal:
  assumes "step prev w = (Inr r, w1)" and "py_lower (fr_status r) \<in> set terminal"
  shows "poll_loop step terminal end_ts pause prev w = Some (Inr r, w1)"
  using assms by (subst poll_loop.simps) simp


lemma http_request_world:
  assumes "http_request env rq w = (r, w1)"
  shows "clock w1 = clock w + latency env (length (net_log w)) \<and> sleeps w1 = sleeps w
         \<and> length (net_log w1) = length (net_log w) + 1"
  using assms by (auto simp add: http_request_def Let_def)

lemma signed_request_world:
  assumes "signed_request env name m path params body w = (r, w1)"
  shows "clock w1 = clock w + latency env (length (net_log w)) \<and> sleeps w1 = sleeps w
         \<and> length (net_log w1) = length (net_log w) + 1"
  using assms
  by (auto simp add: signed_request_def Let_def split: prod.splits dest: http_request_world)

lemma public_request_world:
  assumes "public_request env name m path params w = (r, w1)"
  shows "clock w1 = clock w + latency env (length (net_log w)) \<and> sleeps w1 = sleeps w
         \<and> length (net_log w1) = length (net_log w) + 1"
  using assms
  by (auto simp add: public_request_def Let_def split: prod.splits dest: http_request_world)

lemma kraken_signed_request_world:
  assumes "kraken_signed_request rt env m path data w = (r, w1)"
  shows "w1 = w \<or> (clock w1 = clock w + latency env (length (net_log w)) \<and> sleeps w1 = sleeps w
         \<and> length (net_log w1) = length (net_log w) + 1)"
  using assms
  by (auto simp add: kraken_signed_request_def Let_def
      split: prod.splits sum.splits json.splits list.splits if_splits dest: http_request_world)

lemma kraken_get_order_world:
  assumes "kraken_get_order rt env order_id w = (r, w1)"
  shows "w1 = w \<or> (clock w1 = clock w + latency env (length (net_log w)) \<and> sleeps w1 = sleeps w
         \<and> length (net_log w1) = length (net_log w) + 1)"
  using assms
  by (auto simp add: kraken_get_order_def Let_def
      split: prod.splits sum.splits if_splits dest: kraken_signed_request_world)

lemma gate_get_order_world:
  assumes "gate_get_order env order_id w = (r, w1)"
  shows "w1 = w \<or> (clock w1 = clock w + latency env (length (net_log w)) \<and> sleeps w1 = sleeps w
         \<and> length (net_log w1) = length (net_log w) + 1)"
  using assms
  by (auto simp add: gate_get_order_def split: if_splits dest: signed_request_world)

lemma cache_put_world:
  "clock (cache_put k now obj w) = clock w \<and> sleeps (cache_put k now obj w) = sleeps w
   \<and> net_log (cache_put k now obj w) = net_log w"
  by (simp add: cache_put_def)

lemma gate_get_contract_world:
  assumes "gate_get_contract env contract w = (r, w1)"
  shows "(clock w1 = clock w \<and> sleeps w1 = sleeps w \<and> net_log w1 = net_log w)
         \<or> (clock w1 = clock w + latency env (length (net_log w)) \<and> sleeps w1 = sleeps w
         \<and> length (net_log w1) = length (net_log w) + 1)"
  using assms
  by (auto simp add: gate_get_contract_def Let_def cache_put_world
      split: prod.splits sum.splits if_splits option.splits dest: public_request_world)

lemma kraken_poll_step:
  assumes "\<forall>k. 0 \<le> latency env k \<and> latency env k \<le> d"
  shows "\<exists>r w1. kraken_poll rt env order_id prev w = (Inr r, w1) \<and> clock w \<le> clock w1
           \<and> clock w1 \<le> clock w + d \<and> sleeps w1 = sleeps w
           \<and> length (net_log w1) \<le> length (net_log w) + 1"
proof -
  obtain g w1 where g: "kraken_get_order rt env order_id w = (g, w1)" by (cases "kraken_get_order rt env order_id w")
  have d: "0 \<le> d" using assms order_trans by blast
  from kraken_get_order_world [OF g] assms d
  have "clock w \<le> clock w1 \<and> clock w1 \<le> clock w + d \<and> sleeps w1 = sleeps w
          \<and> length (net_log w1) \<le> length (net_log w) + 1"
    by (auto simp add: add_increasing2)
  then show ?thesis by (simp add: kraken_poll_def g)
qed

lemma gate_poll_step:
  assumes "\<forall>k. 0 \<le> latency env k \<and> latency env k \<le> d"
  shows "\<exists>r w1. gate_poll rt env order_id qm prev w = (Inr r, w1) \<and> clock w \<le> clock w1
           \<and> clock w1 \<le> clock w + d \<and> sleeps w1 = sleeps w
           \<and> length (net_log w1) \<le> length (net_log w) + 1"
proof -
  obtain g w1 where g: "gate_get_order env order_id w = (g, w1)" by (cases "gate_get_order env order_id w")
  have d: "0 \<le> d" using assms order_trans by blast
  from gate_get_order_world [OF g] assms d
  have "clock w \<le> clock w1 \<and> clock w1 \<le> clock w + d \<and> sleeps w1 = sleeps w
          \<and> length (net_log w1) \<le> length (net_log w) + 1"
    by (auto simp add: add_increasing2)
  then show ?thesis by (simp add: gate_poll_def g)
qed

text \<open>
  With requests that take between 0 and \<open>d\<close> seconds, a non-negative \<open>max_wait_sec\<close>
  and a positive \<open>poll_interval_sec\<close>, \<open>wait_for_fill\<close> of \<open>KrakenClient\<close> and of
  \<open>GateUsdtFuturesClient\<close> returns, whatever the requests answer or raise; it returns
  a report and no exception, no later than \<open>max_wait_sec + poll_interval_sec\<close> plus the
  time of one request (two for Gate, which looks the contract up first) after its start;
  with \<open>max_wait_sec = 0\<close> it returns after the first poll without sleeping.
\<close>

lemma wait_for_fill_returns:
  assumes L: "\<forall>k. 0 \<le> latency env k \<and> latency env k \<le> d"
    and W: "0 \<le> max_wait_sec" and P: "0 < poll_interval_sec"
  shows "(\<exists>r w'. kraken_wait_for_fill rt env order_id max_wait_sec poll_interval_sec w
                   = Some (Inr r, w')
            \<and> clock w' \<le> clock w + max_wait_sec + poll_interval_sec + d
            \<and> (max_wait_sec = 0 \<longrightarrow>
                 sleeps w' = sleeps w \<and> length (net_log w') \<le> length (net_log w) + 1))
       \<and> (\<exists>r w'. gate_wait_for_fill rt env order_id contract max_wait_sec poll_interval_sec w
                   = Some (Inr r, w')
            \<and> clock w' \<le> clock w + max_wait_sec + poll_interval_sec + 2 * d
            \<and> (max_wait_sec = 0 \<longrightarrow>
                 sleeps w' = sleeps w \<and> length (net_log w') \<le> length (net_log w) + 2))"
proof -
  have sa: "sleep_arg poll_interval_sec = poll_interval_sec"
    using P by (simp add: sleep_arg_def)
  have d: "0 \<le> d" using L order_trans by blast
  have m: "max (clock w) (clock w + max_wait_sec + poll_interval_sec)
             = clock w + max_wait_sec + poll_interval_sec"
    using W P by simp
  have ks: "\<exists>r w1. kraken_poll rt env order_id prev w = (Inr r, w1) \<and> clock w \<le> clock w1
                 \<and> clock w1 \<le> clock w + d \<and> sleeps w1 = sleeps w
                 \<and> length (net_log w1) \<le> length (net_log w) + 1" for prev w
    using kraken_poll_step [OF L] by blast
  from poll_loop_returns [where step = "kraken_poll rt env order_id"
        and end_ts = "clock w + max_wait_sec" and w = w and prev = "[]"
        and terminal = "[''closed'', ''canceled'', ''cancelled'', ''expired'']", OF ks P]
  have k: "\<exists>r w'. kraken_wait_for_fill rt env order_id max_wait_sec poll_interval_sec w
                   = Some (Inr r, w')
            \<and> clock w' \<le> clock w + max_wait_sec + poll_interval_sec + d
            \<and> (max_wait_sec = 0 \<longrightarrow>
                 sleeps w' = sleeps w \<and> length (net_log w') \<le> length (net_log w) + 1)"
    using m by (auto simp add: kraken_wait_for_fill_def kraken_wait_loop_def Let_def sa)
  obtain c w0 where c: "gate_get_contract env contract w = (c, w0)"
    by (cases "gate_get_contract env contract w")
  from gate_get_contract_world [OF c] L d
  have w0: "clock w \<le> clock w0" "clock w0 \<le> clock w + d" "sleeps w0 = sleeps w"
    "length (net_log w0) \<le> length (net_log w) + 1"
    by (auto simp add: add_increasing2)
  have gs: "\<exists>r w1. gate_poll rt env order_id (gate_fill_multiplier rt c) prev w = (Inr r, w1)
                 \<and> clock w \<le> clock w1
                 \<and> clock w1 \<le> clock w + d \<and> sleeps w1 = sleeps w
                 \<and> length (net_log w1) \<le> length (net_log w) + 1" for prev w
    using gate_poll_step [OF L] by blast
  from poll_loop_returns [where step = "gate_poll rt env order_id (gate_fill_multiplier rt c)"
        and end_ts = "clock w + max_wait_sec" and w = w0 and prev = "[]"
        and terminal = "[''finished'', ''cancelled'', ''canceled'']", OF gs P]
  obtain r w' where
    a: "poll_loop (gate_poll rt env order_id (gate_fill_multiplier rt c))
          [''finished'', ''cancelled'', ''canceled''] (clock w + max_wait_sec) poll_interval_sec []
          w0 = Some (Inr r, w')"
    and b: "clock w' \<le> max (clock w0) (clock w + max_wait_sec + poll_interval_sec) + d"
    and z: "clock w + max_wait_sec \<le> clock w0 \<longrightarrow>
              sleeps w' = sleeps w0 \<and> length (net_log w') \<le> length (net_log w0) + 1"
    by blast
  have g1: "gate_wait_for_fill rt env order_id contract max_wait_sec poll_interval_sec w
              = Some (Inr r, w')"
    using a by (simp add: gate_wait_for_fill_def gate_wait_loop_def Let_def c sa)
  have g2: "clock w' \<le> clock w + max_wait_sec + poll_interval_sec + 2 * d"
    using b w0 W P d by (simp add: max_def split: if_splits)
  have g3: "max_wait_sec = 0 \<longrightarrow>
              sleeps w' = sleeps w \<and> length (net_log w') \<le> length (net_log w) + 2"
    using z w0 by auto
  from k g1 g2 g3 show ?thesis by blast
qed


text \<open>
  In \<open>KucoinFuturesClient.wait_for_fill\<close> the status is read with \<open>od.get\<close> outside
  every \<open>try\<close>: a response whose \<open>data\<close> is a non-empty string leaves the loop with
  \<open>AttributeError\<close>.
\<close>

lemma kucoin_wait_for_fill_raises:
  "map_option fst
     (kucoin_futures_wait_for_fill sample_runtime (sample_env (JObj [(''data'', JStr ''x'')]) 0)
        ''O1'' 3 (1 / 2) world0)
   = Some (Inl AttributeError)"
proof -
  let ?e = "sample_env (JObj [(''data'', JStr ''x'')]) 0"
  let ?k = "kucoin_futures_poll sample_runtime ?e ''O1'' [] world0"
  have "fst ?k = Inl AttributeError"
    by code_simp
  then have k: "?k = (Inl AttributeError, snd ?k)"
    by (simp add: prod_eq_iff)
  have "poll_loop (kucoin_futures_poll sample_runtime ?e ''O1'')
          [''done'', ''canceled'', ''cancelled'', ''filled''] (clock world0 + 3) (sleep_arg (1 / 2))
          [] world0 = Some (Inl AttributeError, snd ?k)"
    by (subst poll_loop.simps, subst k) simp
  then show ?thesis
    by (simp add: kucoin_futures_wait_for_fill_def kucoin_futures_wait_loop_def Let_def)
qed

lemma kucoin_get_contract_sleeps:
  assumes "kucoin_get_contract rt env symbol w = (r, w1)"
  shows "sleeps w1 = sleeps w"
  using assms
  by (auto simp add: kucoin_get_contract_def Let_def cache_put_world
      split: prod.splits sum.splits if_splits option.splits dest: public_request_world)

lemma kucoin_futures_report_status:
  assumes "jget cur ''data'' = JObj d"
  shows "\<exists>r w2. kucoin_futures_report rt env cur w1 = (Inr r, w2)
           \<and> fr_status r = py_str rt (py_or (jget d ''status'') (JStr []))
           \<and> fr_order r = cur \<and> sleeps w2 = sleeps w1"
proof -
  let ?symb = "py_str rt (py_or (jget d ''symbol'') (JStr []))"
  obtain c w2 where c: "kucoin_get_contract rt env ?symb w1 = (c, w2)"
    by (cases "kucoin_get_contract rt env ?symb w1")
  have od: "py_or (jget cur ''data'') (JObj []) = JObj d"
    using assms by (cases d) (simp_all add: py_or_def truthy_def)
  show ?thesis
    using kucoin_get_contract_sleeps [OF c]
    by (simp add: kucoin_futures_report_def od is_dict_def items_def Let_def c)
qed

text \<open>
  Claim C4. In the loops of \<open>KrakenFuturesClient.wait_for_fill\<close> and of
  \<open>KucoinFuturesClient.wait_for_fill\<close>, from any iteration: when \<open>get_order\<close> returns an
  order whose status, in lower case, is one of the terminal statuses of the client
  (\<open>filled\<close>, \<open>cancelled\<close>, \<open>canceled\<close>, \<open>rejected\<close> for Kraken futures; \<open>done\<close>,
  \<open>canceled\<close>, \<open>cancelled\<close>, \<open>filled\<close> for KuCoin futures), the function returns in this
  iteration, without sleeping, the report of this order with the status as the exchange
  wrote it. Nothing is asked of the filled quantity and of the average price, which may
  both be zero. The same holds of \<open>wait_for_fill\<close> itself at its first poll.
\<close>

theorem C4_terminal_status_returns:
  "(kraken_futures_get_order rt env order_id client_order_id w = (Inr od, w1)
      \<and> py_lower (py_str rt (py_or (jget od ''status'')
                                (py_or (jget od ''orderStatus'') (JStr []))))
          \<in> {''filled'', ''cancelled'', ''canceled'', ''rejected''}
    \<longrightarrow> kraken_futures_wait_loop rt env order_id client_order_id end_ts pause prev w
          = Some (Inr (kraken_futures_report rt od), w1)
        \<and> kraken_futures_wait_for_fill rt env order_id client_order_id max_wait_sec
            poll_interval_sec w
          = Some (Inr (kraken_futures_report rt od), w1)
        \<and> fr_status (kraken_futures_report rt od)
          = py_str rt (py_or (jget od ''status'') (py_or (jget od ''orderStatus'') (JStr [])))
        \<and> fr_order (kraken_futures_report rt od) = od
        \<and> sleeps w1 = sleeps w)
   \<and> (kucoin_futures_get_order env order_id [] w = (Inr resp, w1)
      \<and> jget (dict_of resp) ''data'' = JObj d
      \<and> py_lower (py_str rt (py_or (jget d ''status'') (JStr [])))
          \<in> {''done'', ''canceled'', ''cancelled'', ''filled''}
    \<longrightarrow> kucoin_futures_wait_loop rt env order_id end_ts pause prev w
          = Some (kucoin_futures_report rt env (dict_of resp) w1)
        \<and> kucoin_futures_wait_for_fill rt env order_id max_wait_sec poll_interval_sec w
          = Some (kucoin_futures_report rt env (dict_of resp) w1)
        \<and> (\<exists>r w2. kucoin_futures_report rt env (dict_of resp) w1 = (Inr r, w2)
             \<and> fr_status r = py_str rt (py_or (jget d ''status'') (JStr []))
             \<and> fr_order r = dict_of resp
             \<and> sleeps w2 = sleeps w))"
proof (rule conjI; intro impI; elim conjE)
  assume g: "kraken_futures_get_order rt env order_id client_order_id w = (Inr od, w1)"
    and t: "py_lower (py_str rt (py_or (jget od ''status'')
                                   (py_or (jget od ''orderStatus'') (JStr []))))
              \<in> {''filled'', ''cancelled'', ''canceled'', ''rejected''}"
  have s: "kraken_futures_poll rt env order_id client_order_id q w
             = (Inr (kraken_futures_report rt od), w1)" for q
    by (simp add: kraken_futures_poll_def g)
  have f: "fr_status (kraken_futures_report rt od)
             = py_str rt (py_or (jget od ''status'') (py_or (jget od ''orderStatus'') (JStr [])))"
    "fr_order (kraken_futures_report rt od) = od"
    by (simp_all add: kraken_futures_report_def)
  have m: "py_lower (fr_status (kraken_futures_report rt od))
             \<in> set [''filled'', ''cancelled'', ''canceled'', ''rejected'']"
    using t by (simp only: f) simp
  have l: "poll_loop (kraken_futures_poll rt env order_id client_order_id)
             [''filled'', ''cancelled'', ''canceled'', ''rejected''] e p q w
           = Some (Inr (kraken_futures_report rt od), w1)" for e p q
    by (rule poll_loop_terminal
        [where step = "kraken_futures_poll rt env order_id client_order_id", OF s m])
  have sl: "sleeps w1 = sleeps w"
    using g
    by (auto simp add: kraken_futures_get_order_def kraken_futures_signed_request_def Let_def
        split: if_splits prod.splits sum.splits dest: http_request_world)
  show "kraken_futures_wait_loop rt env order_id client_order_id end_ts pause prev w
          = Some (Inr (kraken_futures_report rt od), w1)
        \<and> kraken_futures_wait_for_fill rt env order_id client_order_id max_wait_sec
            poll_interval_sec w
          = Some (Inr (kraken_futures_report rt od), w1)
        \<and> fr_status (kraken_futures_report rt od)
          = py_str rt (py_or (jget od ''status'') (py_or (jget od ''orderStatus'') (JStr [])))
        \<and> fr_order (kraken_futures_report rt od) = od
        \<and> sleeps w1 = sleeps w"
    using f sl
    by (simp add: kraken_futures_wait_loop_def kraken_futures_wait_for_fill_def Let_def l)
next
  assume g: "kucoin_futures_get_order env order_id [] w = (Inr resp, w1)"
    and dd: "jget (dict_of resp) ''data'' = JObj d"
    and t: "py_lower (py_str rt (py_or (jget d ''status'') (JStr [])))
              \<in> {''done'', ''canceled'', ''cancelled'', ''filled''}"
  from kucoin_futures_report_status [OF dd, of rt env w1] obtain r w2 where
    rep: "kucoin_futures_report rt env (dict_of resp) w1 = (Inr r, w2)"
    and st: "fr_status r = py_str rt (py_or (jget d ''status'') (JStr []))"
    and fo: "fr_order r = dict_of resp" and s2: "sleeps w2 = sleeps w1"
    by blast
  have s: "kucoin_futures_poll rt env order_id q w = (Inr r, w2)" for q
    by (simp add: kucoin_futures_poll_def g rep)
  have m: "py_lower (fr_status r) \<in> set [''done'', ''canceled'', ''cancelled'', ''filled'']"
    using t by (simp only: st) simp
  have l: "poll_loop (kucoin_futures_poll rt env order_id)
             [''done'', ''canceled'', ''cancelled'', ''filled''] e p q w = Some (Inr r, w2)"
    for e p q
    by (rule poll_loop_terminal [where step = "kucoin_futures_poll rt env order_id", OF s m])
  have sl: "sleeps w1 = sleeps w"
    using g
    by (auto simp add: kucoin_futures_get_order_def split: if_splits dest: signed_request_world)
  show "kucoin_futures_wait_loop rt env order_id end_ts pause prev w
          = Some (kucoin_futures_report rt env (dict_of resp) w1)
        \<and> kucoin_futures_wait_for_fill rt env order_id max_wait_sec poll_interval_sec w
          = Some (kucoin_futures_report rt env (dict_of resp) w1)
        \<and> (\<exists>r w2. kucoin_futures_report rt env (dict_of resp) w1 = (Inr r, w2)
             \<and> fr_status r = py_str rt (py_or (jget d ''status'') (JStr []))
             \<and> fr_order r = dict_of resp
             \<and> sleeps w2 = sleeps w)"
    using st fo s2 sl
    by (simp add: kucoin_futures_wait_loop_def kucoin_futures_wait_for_fill_def Let_def l rep)
qed

theorem C4_terminal_status_witness:
  "map_option fst
     (kraken_futures_wait_for_fill sample_runtime
        (sample_env (JObj [(''status'', JStr ''FILLED'')]) 0) ''O1'' [] 3 (1 / 2) world0)
     = Some (Inr \<lparr>fr_filled = 0, fr_avg_price = 0, fr_status = ''FILLED'',
                   fr_order = [(''status'', JStr ''FILLED'')]\<rparr>)
   \<and> map_option (sleeps \<circ> snd)
       (kraken_futures_wait_for_fill sample_runtime
          (sample_env (JObj [(''status'', JStr ''FILLED'')]) 0) ''O1'' [] 3 (1 / 2) world0)
     = Some []
   \<and> map_option fst
       (kucoin_futures_wait_for_fill sample_runtime
          (sample_env (JObj [(''data'', JObj [(''status'', JStr ''Done'')])]) 0) ''O1'' 3 (1 / 2)
          world0)
     = Some (Inr \<lparr>fr_filled = 0, fr_avg_price = 0, fr_status = ''Done'',
                   fr_order = [(''data'', JObj [(''status'', JStr ''Done'')])]\<rparr>)
   \<and> map_option (sleeps \<circ> snd)
       (kucoin_futures_wait_for_fill sample_runtime
          (sample_env (JObj [(''data'', JObj [(''status'', JStr ''Done'')])]) 0) ''O1'' 3 (1 / 2)
          world0)
     = Some []"
proof -
  let ?e1 = "sample_env (JObj [(''status'', JStr ''FILLED'')]) 0"
  let ?e2 = "sample_env (JObj [(''data'', JObj [(''status'', JStr ''Done'')])]) 0"
  let ?g1 = "kraken_futures_get_order sample_runtime ?e1 ''O1'' [] world0"
  let ?g2 = "kucoin_futures_get_order ?e2 ''O1'' [] world0"
  have a1: "fst ?g1 = Inr [(''status'', JStr ''FILLED'')]"
    by code_simp
  have a2: "?g1 = (Inr [(''status'', JStr ''FILLED'')], snd ?g1)"
    using a1 by (simp add: prod_eq_iff)
  have a3: "py_lower (py_str sample_runtime
              (py_or (jget [(''status'', JStr ''FILLED'')] ''status'')
                 (py_or (jget [(''status'', JStr ''FILLED'')] ''orderStatus'') (JStr []))))
            \<in> {''filled'', ''cancelled'', ''canceled'', ''rejected''}"
    by code_simp
  have a4: "kraken_futures_report sample_runtime [(''status'', JStr ''FILLED'')]
            = \<lparr>fr_filled = 0, fr_avg_price = 0, fr_status = ''FILLED'',
                 fr_order = [(''status'', JStr ''FILLED'')]\<rparr>"
    by code_simp
  have a5: "sleeps world0 = []"
    by (simp add: world0_def)
  have b1: "fst ?g2 = Inr (JObj [(''data'', JObj [(''status'', JStr ''Done'')])])"
    by code_simp
  have b2: "?g2 = (Inr (JObj [(''data'', JObj [(''status'', JStr ''Done'')])]), snd ?g2)"
    using b1 by (simp add: prod_eq_iff)
  have b3: "jget (dict_of (JObj [(''data'', JObj [(''status'', JStr ''Done'')])])) ''data''
            = JObj [(''status'', JStr ''Done'')]"
    by code_simp
  have b4: "py_lower (py_str sample_runtime
              (py_or (jget [(''status'', JStr ''Done'')] ''status'') (JStr [])))
            \<in> {''done'', ''canceled'', ''cancelled'', ''filled''}"
    by code_simp
  have b5: "fst (kucoin_futures_report sample_runtime ?e2
                  (dict_of (JObj [(''data'', JObj [(''status'', JStr ''Done'')])])) (snd ?g2))
            = Inr \<lparr>fr_filled = 0, fr_avg_price = 0, fr_status = ''Done'',
                     fr_order = [(''data'', JObj [(''status'', JStr ''Done'')])]\<rparr>"
    by code_simp
  note t = C4_terminal_status_returns [where rt = sample_runtime and env = ?e1
      and order_id = "''O1''" and client_order_id = "[]" and w = world0
      and od = "[(''status'', JStr ''FILLED'')]" and ?w1.0 = "snd ?g1"
      and max_wait_sec = 3 and poll_interval_sec = "1 / 2"]
  from t a2 a3 have k: "kraken_futures_wait_for_fill sample_runtime ?e1 ''O1'' [] 3 (1 / 2) world0
      = Some (Inr (kraken_futures_report sample_runtime [(''status'', JStr ''FILLED'')]), snd ?g1)"
    and ks: "sleeps (snd ?g1) = sleeps world0"
    by blast+
  note u = C4_terminal_status_returns [where rt = sample_runtime and env = ?e2
      and order_id = "''O1''" and w = world0
      and resp = "JObj [(''data'', JObj [(''status'', JStr ''Done'')])]"
      and ?w1.0 = "snd ?g2" and d = "[(''status'', JStr ''Done'')]"
      and max_wait_sec = 3 and poll_interval_sec = "1 / 2"]
  from u b2 b3 b4 have c: "kucoin_futures_wait_for_fill sample_runtime ?e2 ''O1'' 3 (1 / 2) world0
      = Some (kucoin_futures_report sample_runtime ?e2
                (dict_of (JObj [(''data'', JObj [(''status'', JStr ''Done'')])])) (snd ?g2))"
    and cs: "\<exists>r w2. kucoin_futures_report sample_runtime ?e2
                (dict_of (JObj [(''data'', JObj [(''status'', JStr ''Done'')])])) (snd ?g2)
                  = (Inr r, w2) \<and> sleeps w2 = sleeps world0"
    by blast+
  show ?thesis
    using ks cs by (auto simp add: k c a4 a5 b5)
qed

end
